theory Spec2Isabelle
  imports Complex_Main "HOL-Library.Word" "HOL-Library.Monad_Syntax"
begin

unbundle bit_operations_syntax

section \<open>Terrain tiles of GridMap.cpp\<close>

text \<open>
  A shallow embedding of \<^verbatim>\<open>src/game/Maps/GridMap.cpp\<close>: the tile store
  \<^verbatim>\<open>GridMap\<close> with its loader and its height, area and liquid queries, and the tile cache
  \<^verbatim>\<open>TerrainInfo\<close> with its reference counts, its lazy load and its periodic clean-up.

  Conventions.
  \<^item> The arithmetic of the C++ \<^verbatim>\<open>float\<close> is a parameter of the model: a record \<open>fp\<close> of
    the operations the code applies to floats, over a type \<open>'f\<close> of float values. Every
    float operation of the source is one application of the operation of \<open>fp\<close>, in the order
    in which the C++ evaluates the expression, with an \<^verbatim>\<open>int\<close> operand converted first. Nothing
    is assumed about the operations, so what is proved for every \<open>fp\<close> holds for the
    single-precision arithmetic of the compiled code with its rounding, its infinities and
    its not-a-number. That arithmetic is given further down as \<open>binary32\<close>; the concrete
    examples are evaluated in it.
  \<^item> \<^verbatim>\<open>uint8\<close>, \<^verbatim>\<open>uint16\<close>, \<^verbatim>\<open>uint32\<close>, \<^verbatim>\<open>int16\<close> are words of that width; a C++
    \<^verbatim>\<open>int\<close> that provably stays small is an \<open>int\<close>.
  \<^item> A pointer that may be null is an \<open>option\<close>; an array behind it is a list.
  \<^item> A result \<open>None\<close> of a query or of a cache operation stands for the places where the
    C++ has no defined result: a failed \<^verbatim>\<open>MANGOS_ASSERT\<close>, an array index out of range, a
    \<^verbatim>\<open>float\<close> converted to an \<^verbatim>\<open>int\<close> that cannot hold it.
\<close>

subsection \<open>Constants\<close>

text \<open>
  Modelled from the spec: the headers \<^verbatim>\<open>GridDefines.h\<close> and \<^verbatim>\<open>GridMap.h\<close> are not among the
  sources. The spec fixes the per-tile resolution (128) and the number of tiles per side
  (64). The two float constants of these headers, the side length of a tile
  \<^verbatim>\<open>SIZE_OF_GRIDS\<close> ("fixed side length") and the invalid-height sentinel
  \<^verbatim>\<open>INVALID_HEIGHT_VALUE\<close> ("a reserved very large negative constant"), come with the float
  arithmetic below.
\<close>

definition MAP_RESOLUTION :: int where
  "MAP_RESOLUTION = 128"

definition MAX_NUMBER_OF_GRIDS :: nat where
  "MAX_NUMBER_OF_GRIDS = 64"

text \<open>
  Modelled from the spec: the flag bits of the sub-block headers and the liquid status
  codes are declared in \<^verbatim>\<open>GridMap.h\<close>. The spec says which bit selects what: a no-area bit, a
  no-height bit and the two quantisation bits, and the two liquid presence bits.
\<close>

definition MAP_AREA_NO_AREA :: "16 word" where
  "MAP_AREA_NO_AREA = 0x0001"

definition MAP_HEIGHT_NO_HEIGHT :: "32 word" where
  "MAP_HEIGHT_NO_HEIGHT = 0x0001"

definition MAP_HEIGHT_AS_INT16 :: "32 word" where
  "MAP_HEIGHT_AS_INT16 = 0x0002"

definition MAP_HEIGHT_AS_INT8 :: "32 word" where
  "MAP_HEIGHT_AS_INT8 = 0x0004"

definition MAP_LIQUID_NO_TYPE :: "8 word" where
  "MAP_LIQUID_NO_TYPE = 0x01"

definition MAP_LIQUID_NO_HEIGHT :: "8 word" where
  "MAP_LIQUID_NO_HEIGHT = 0x02"

definition MAP_LIQUID_TYPE_DEEP_WATER :: "8 word" where
  "MAP_LIQUID_TYPE_DEEP_WATER = 0x10"

datatype GridMapLiquidStatus =
  LIQUID_MAP_NO_WATER
  | LIQUID_MAP_ABOVE_WATER
  | LIQUID_MAP_WATER_WALK
  | LIQUID_MAP_IN_WATER
  | LIQUID_MAP_UNDER_WATER

text \<open>
  The four-character tags, read as a little-endian \<^verbatim>\<open>uint32\<close> the way
  \<^verbatim>\<open>*((uint32 const*)(MAP_MAGIC))\<close> reads them.
\<close>

definition magic_word :: "string \<Rightarrow> 32 word" where
  "magic_word s = foldr (\<lambda>c w. push_bit 8 w + of_nat (of_char c)) (take 4 s) 0"

definition MAP_MAGIC :: "32 word" where
  "MAP_MAGIC = magic_word ''MAPS''"

definition MAP_VERSION_MAGIC :: "32 word" where
  "MAP_VERSION_MAGIC = magic_word ''s1.4''"

definition MAP_AREA_MAGIC :: "32 word" where
  "MAP_AREA_MAGIC = magic_word ''AREA''"

definition MAP_HEIGHT_MAGIC :: "32 word" where
  "MAP_HEIGHT_MAGIC = magic_word ''MHGT''"

definition MAP_LIQUID_MAGIC :: "32 word" where
  "MAP_LIQUID_MAGIC = magic_word ''MLIQ''"

definition holetab_h :: "16 word list" where
  "holetab_h = [0x1111, 0x2222, 0x4444, 0x8888]"

definition holetab_v :: "16 word list" where
  "holetab_v = [0x000F, 0x00F0, 0x0F00, 0xF000]"

subsection \<open>C++ arithmetic and array access\<close>

text \<open>
  The float arithmetic. \<open>fadd\<close>, \<open>fsub\<close>, \<open>fmul\<close> and \<open>fdiv\<close> are \<^verbatim>\<open>+\<close>, \<^verbatim>\<open>-\<close>, \<^verbatim>\<open>*\<close> and
  \<^verbatim>\<open>/\<close> on two floats, \<open>fless a b\<close> is \<^verbatim>\<open>a < b\<close> (and \<^verbatim>\<open>b > a\<close>), \<open>fint\<close> converts an
  \<^verbatim>\<open>int\<close> to a float, as the C++ does with the \<^verbatim>\<open>int\<close> operand of a mixed operation, and
  \<open>f_to_int\<close> is the cast \<^verbatim>\<open>(int)x\<close>, which is \<open>None\<close> where the C++ leaves the conversion
  undefined (the truncated value does not fit an \<^verbatim>\<open>int\<close>, or there is none). The two float
  constants of the absent headers are float values.
\<close>

record 'f float_ops =
  fadd :: "'f \<Rightarrow> 'f \<Rightarrow> 'f"
  fsub :: "'f \<Rightarrow> 'f \<Rightarrow> 'f"
  fmul :: "'f \<Rightarrow> 'f \<Rightarrow> 'f"
  fdiv :: "'f \<Rightarrow> 'f \<Rightarrow> 'f"
  fless :: "'f \<Rightarrow> 'f \<Rightarrow> bool"
  fint :: "int \<Rightarrow> 'f"
  f_to_int :: "'f \<Rightarrow> int option"
  SIZE_OF_GRIDS :: 'f
  INVALID_HEIGHT_VALUE :: 'f

text \<open>
  The expression \<^verbatim>\<open>32 - x / SIZE_OF_GRIDS\<close>, which \<^verbatim>\<open>GetGrid\<close> converts to the index of a tile,
  and the expression \<^verbatim>\<open>n * (32 - x / SIZE_OF_GRIDS)\<close> with which every query of a store
  starts, \<open>n\<close> being \<^verbatim>\<open>MAP_RESOLUTION\<close> or 16. \<^verbatim>\<open>SIZE_OF_GRIDS\<close> is a float, so the quotient, the
  difference and the product are float operations.
\<close>

definition grid_coord :: "'f float_ops \<Rightarrow> 'f \<Rightarrow> 'f" where
  "grid_coord fp x = fsub fp (fint fp 32) (fdiv fp x (SIZE_OF_GRIDS fp))"

definition scaled :: "'f float_ops \<Rightarrow> int \<Rightarrow> 'f \<Rightarrow> 'f" where
  "scaled fp n x = fmul fp (fint fp n) (grid_coord fp x)"

text \<open>Integer division and remainder of C++ truncate towards zero.\<close>

definition c_div :: "int \<Rightarrow> int \<Rightarrow> int" where
  "c_div a b = sgn a * sgn b * (\<bar>a\<bar> div \<bar>b\<bar>)"

definition c_mod :: "int \<Rightarrow> int \<Rightarrow> int" where
  "c_mod a b = a - b * c_div a b"

text \<open>\<^verbatim>\<open>a[i]\<close> with a signed index: defined inside the array only.\<close>

definition elem_at :: "'a list \<Rightarrow> int \<Rightarrow> 'a option" where
  "elem_at xs i = (if 0 \<le> i \<and> nat i < length xs then Some (xs ! nat i) else None)"

subsection \<open>The tile store\<close>

datatype HeightStrategy =
  getHeightFromFlat_ptr
  | getHeightFromFloat_ptr
  | getHeightFromUint8_ptr
  | getHeightFromUint16_ptr

text \<open>
  \<^verbatim>\<open>m_V9\<close>, \<^verbatim>\<open>m_uint16_V9\<close> and \<^verbatim>\<open>m_uint8_V9\<close> are one pointer (a union in \<^verbatim>\<open>GridMap.h\<close>:
  \<^verbatim>\<open>unloadData\<close> frees and clears \<^verbatim>\<open>m_V9\<close> only), and likewise for \<^verbatim>\<open>m_V8\<close>. The array behind
  the pointer keeps the element type it was allocated with.
\<close>

datatype 'f samples =
  FloatArr "'f list"
  | Uint16Arr "16 word list"
  | Uint8Arr "8 word list"

record 'f GridMap =
  m_flags :: "32 word"
  m_fullyLoaded :: bool
  m_gridArea :: "16 word"
  m_area_map :: "16 word list option"
  m_gridHeight :: 'f
  m_gridIntHeightMultiplier :: 'f
  m_gridGetHeight :: HeightStrategy
  m_V9 :: "'f samples option"
  m_V8 :: "'f samples option"
  m_holes :: "nat \<Rightarrow> nat \<Rightarrow> 16 word"
  m_liquidGlobalEntry :: "16 word"
  m_liquidGlobalFlags :: "8 word"
  m_liquid_offX :: "8 word"
  m_liquid_offY :: "8 word"
  m_liquid_width :: "8 word"
  m_liquid_height :: "8 word"
  m_liquidLevel :: 'f
  m_liquidFlags :: "8 word list option"
  m_liquidEntry :: "16 word list option"
  m_liquid_map :: "'f list option"

text \<open>The constructor \<^verbatim>\<open>GridMap::GridMap()\<close>.\<close>

definition GridMap_new :: "'f float_ops \<Rightarrow> 'f GridMap" where
  "GridMap_new fp =
     \<lparr> m_flags = 0,
       m_fullyLoaded = False,
       m_gridArea = 0,
       m_area_map = None,
       m_gridHeight = INVALID_HEIGHT_VALUE fp,
       m_gridIntHeightMultiplier = fint fp 0,
       m_gridGetHeight = getHeightFromFlat_ptr,
       m_V9 = None,
       m_V8 = None,
       m_holes = (\<lambda>_ _. 0),
       m_liquidGlobalEntry = 0,
       m_liquidGlobalFlags = 0,
       m_liquid_offX = 0,
       m_liquid_offY = 0,
       m_liquid_width = 0,
       m_liquid_height = 0,
       m_liquidLevel = INVALID_HEIGHT_VALUE fp,
       m_liquidFlags = None,
       m_liquidEntry = None,
       m_liquid_map = None \<rparr>"

definition unloadData :: "'f GridMap \<Rightarrow> 'f GridMap" where
  "unloadData g =
     g\<lparr> m_area_map := None,
        m_V9 := None,
        m_V8 := None,
        m_liquidEntry := None,
        m_liquidFlags := None,
        m_liquid_map := None,
        m_gridGetHeight := getHeightFromFlat_ptr \<rparr>"

text \<open>
  Modelled from the spec: \<^verbatim>\<open>SetFullyLoaded\<close> and \<^verbatim>\<open>IsFullyLoaded\<close> are inline members of
  \<^verbatim>\<open>GridMap.h\<close>; the spec's \<open>fullyLoaded\<close> flag is set by the one and read by the other.
\<close>

definition SetFullyLoaded :: "'f GridMap \<Rightarrow> 'f GridMap" where
  "SetFullyLoaded g = g\<lparr> m_fullyLoaded := True \<rparr>"

definition IsFullyLoaded :: "'f GridMap \<Rightarrow> bool" where
  "IsFullyLoaded g = m_fullyLoaded g"

subsection \<open>The tile file\<close>

record GridMapFileHeader =
  mapMagic :: "32 word"
  versionMagic :: "32 word"
  areaMapOffset :: "32 word"
  areaMapSize :: "32 word"
  heightMapOffset :: "32 word"
  heightMapSize :: "32 word"
  liquidMapOffset :: "32 word"
  liquidMapSize :: "32 word"
  holesOffset :: "32 word"
  holesSize :: "32 word"

text \<open>
  Modelled from the spec: the sub-block headers are declared in \<^verbatim>\<open>GridMap.h\<close>. The fields
  are the ones the loaders read; each starts with the block's own 4-byte tag.
\<close>

record GridMapAreaHeader =
  area_fourcc :: "32 word"
  area_flags :: "16 word"
  area_gridArea :: "16 word"

record 'f GridMapHeightHeader =
  height_fourcc :: "32 word"
  height_flags :: "32 word"
  height_gridHeight :: 'f
  height_gridMaxHeight :: 'f

record 'f GridMapLiquidHeader =
  liquid_fourcc :: "32 word"
  liquid_flags :: "8 word"
  liquid_liquidFlags :: "8 word"
  liquid_liquidType :: "16 word"
  liquid_offsetX :: "8 word"
  liquid_offsetY :: "8 word"
  liquid_width :: "8 word"
  liquid_height :: "8 word"
  liquid_liquidLevel :: 'f

text \<open>
  An open \<^verbatim>\<open>FILE*\<close>, seen through the reads the loaders make: each field says what the
  buffer holds after the \<^verbatim>\<open>fseek\<close> to a block's offset and the \<^verbatim>\<open>fread\<close> calls that follow
  it. The loaders ignore the result of \<^verbatim>\<open>fread\<close> everywhere but in \<^verbatim>\<open>loadHolesData\<close>, so a
  short read simply leaves some values in the buffer; the hole reader also says whether
  \<^verbatim>\<open>fseek\<close> and \<^verbatim>\<open>fread\<close> succeeded, and what the hole table holds afterwards given what it
  held before. An array is given by its elements, index by index.
\<close>

record 'f MapFile =
  read_FileHeader :: GridMapFileHeader
  read_AreaHeader :: "32 word \<Rightarrow> GridMapAreaHeader"
  read_area_map :: "32 word \<Rightarrow> nat \<Rightarrow> 16 word"
  read_holes :: "32 word \<Rightarrow> (nat \<Rightarrow> nat \<Rightarrow> 16 word) \<Rightarrow> bool \<times> (nat \<Rightarrow> nat \<Rightarrow> 16 word)"
  read_HeightHeader :: "32 word \<Rightarrow> 'f GridMapHeightHeader"
  read_uint16_V9 :: "32 word \<Rightarrow> nat \<Rightarrow> 16 word"
  read_uint16_V8 :: "32 word \<Rightarrow> nat \<Rightarrow> 16 word"
  read_uint8_V9 :: "32 word \<Rightarrow> nat \<Rightarrow> 8 word"
  read_uint8_V8 :: "32 word \<Rightarrow> nat \<Rightarrow> 8 word"
  read_V9 :: "32 word \<Rightarrow> nat \<Rightarrow> 'f"
  read_V8 :: "32 word \<Rightarrow> nat \<Rightarrow> 'f"
  read_LiquidHeader :: "32 word \<Rightarrow> 'f GridMapLiquidHeader"
  read_liquidEntry :: "32 word \<Rightarrow> nat \<Rightarrow> 16 word"
  read_liquidFlags :: "32 word \<Rightarrow> nat \<Rightarrow> 8 word"
  read_liquid_map :: "32 word \<Rightarrow> nat \<Rightarrow> 'f"

text \<open>\<^verbatim>\<open>new T[n]\<close> filled by one \<^verbatim>\<open>fread\<close> of \<open>n\<close> elements.\<close>

definition fread_array :: "nat \<Rightarrow> (nat \<Rightarrow> 'a) \<Rightarrow> 'a list" where
  "fread_array n f = map f [0..<n]"

definition loadAreaData :: "'f MapFile \<Rightarrow> 32 word \<Rightarrow> 'f GridMap \<Rightarrow> bool \<times> 'f GridMap" where
  "loadAreaData f offset g =
     (let header = read_AreaHeader f offset
      in if area_fourcc header \<noteq> MAP_AREA_MAGIC then (False, g)
         else
           let g1 = g\<lparr> m_gridArea := area_gridArea header \<rparr>
           in if area_flags header AND MAP_AREA_NO_AREA = 0
              then (True, g1\<lparr> m_area_map := Some (fread_array (16 * 16) (read_area_map f offset)) \<rparr>)
              else (True, g1))"

definition loadHeightData ::
  "'f float_ops \<Rightarrow> 'f MapFile \<Rightarrow> 32 word \<Rightarrow> 'f GridMap \<Rightarrow> bool \<times> 'f GridMap" where
  "loadHeightData fp f offset g =
     (let header = read_HeightHeader f offset
      in if height_fourcc header \<noteq> MAP_HEIGHT_MAGIC then (False, g)
         else
           let g1 = g\<lparr> m_gridHeight := height_gridHeight header \<rparr>
           in if height_flags header AND MAP_HEIGHT_NO_HEIGHT = 0
              then
                if height_flags header AND MAP_HEIGHT_AS_INT16 \<noteq> 0
                then (True,
                  g1\<lparr> m_V9 := Some (Uint16Arr (fread_array (129 * 129) (read_uint16_V9 f offset))),
                      m_V8 := Some (Uint16Arr (fread_array (128 * 128) (read_uint16_V8 f offset))),
                      m_gridIntHeightMultiplier :=
                        fdiv fp (fsub fp (height_gridMaxHeight header) (height_gridHeight header))
                          (fint fp 65535),
                      m_gridGetHeight := getHeightFromUint16_ptr \<rparr>)
                else if height_flags header AND MAP_HEIGHT_AS_INT8 \<noteq> 0
                then (True,
                  g1\<lparr> m_V9 := Some (Uint8Arr (fread_array (129 * 129) (read_uint8_V9 f offset))),
                      m_V8 := Some (Uint8Arr (fread_array (128 * 128) (read_uint8_V8 f offset))),
                      m_gridIntHeightMultiplier :=
                        fdiv fp (fsub fp (height_gridMaxHeight header) (height_gridHeight header))
                          (fint fp 255),
                      m_gridGetHeight := getHeightFromUint8_ptr \<rparr>)
                else (True,
                  g1\<lparr> m_V9 := Some (FloatArr (fread_array (129 * 129) (read_V9 f offset))),
                      m_V8 := Some (FloatArr (fread_array (128 * 128) (read_V8 f offset))),
                      m_gridGetHeight := getHeightFromFloat_ptr \<rparr>)
              else (True, g1\<lparr> m_gridGetHeight := getHeightFromFlat_ptr \<rparr>))"

definition loadHolesData :: "'f MapFile \<Rightarrow> 32 word \<Rightarrow> 'f GridMap \<Rightarrow> bool \<times> 'f GridMap" where
  "loadHolesData f offset g =
     (let (ok, holes) = read_holes f offset (m_holes g)
      in (ok, g\<lparr> m_holes := holes \<rparr>))"

definition loadGridMapLiquidData :: "'f MapFile \<Rightarrow> 32 word \<Rightarrow> 'f GridMap \<Rightarrow> bool \<times> 'f GridMap" where
  "loadGridMapLiquidData f offset g =
     (let header = read_LiquidHeader f offset
      in if liquid_fourcc header \<noteq> MAP_LIQUID_MAGIC then (False, g)
         else
           let g1 = g\<lparr> m_liquidGlobalEntry := liquid_liquidType header,
                       m_liquidGlobalFlags := liquid_liquidFlags header,
                       m_liquid_offX := liquid_offsetX header,
                       m_liquid_offY := liquid_offsetY header,
                       m_liquid_width := liquid_width header,
                       m_liquid_height := liquid_height header,
                       m_liquidLevel := liquid_liquidLevel header \<rparr>;
               g2 = (if liquid_flags header AND MAP_LIQUID_NO_TYPE = 0
                     then g1\<lparr> m_liquidEntry := Some (fread_array (16 * 16) (read_liquidEntry f offset)),
                              m_liquidFlags := Some (fread_array (16 * 16) (read_liquidFlags f offset)) \<rparr>
                     else g1);
               g3 = (if liquid_flags header AND MAP_LIQUID_NO_HEIGHT = 0
                     then g2\<lparr> m_liquid_map :=
                            Some (fread_array (unat (m_liquid_width g2) * unat (m_liquid_height g2))
                                    (read_liquid_map f offset)) \<rparr>
                     else g2)
           in (True, g3))"

text \<open>
  \<^verbatim>\<open>GridMap::loadData\<close>. The argument is the result of \<^verbatim>\<open>fopen\<close>: \<open>None\<close> when the file
  cannot be opened. The result is the returned \<^verbatim>\<open>bool\<close> and the store afterwards.
\<close>

definition loadData :: "'f float_ops \<Rightarrow> 'f MapFile option \<Rightarrow> 'f GridMap \<Rightarrow> bool \<times> 'f GridMap" where
  "loadData fp file g0 =
     (let g = unloadData g0
      in case file of
           None \<Rightarrow> (True, g)
         | Some f \<Rightarrow>
             let header = read_FileHeader f
             in if mapMagic header = MAP_MAGIC \<and> versionMagic header = MAP_VERSION_MAGIC
                then
                  let (okA, gA) = (if areaMapOffset header \<noteq> 0
                                   then loadAreaData f (areaMapOffset header) g else (True, g))
                  in if \<not> okA then (False, gA)
                     else
                       let (okH, gH) = (if holesOffset header \<noteq> 0
                                        then loadHolesData f (holesOffset header) gA else (True, gA))
                       in if \<not> okH then (False, gH)
                          else
                            let (okV, gV) = (if heightMapOffset header \<noteq> 0
                                             then loadHeightData fp f (heightMapOffset header) gH
                                             else (True, gH))
                            in if \<not> okV then (False, gV)
                               else
                                 let (okL, gL) = (if liquidMapOffset header \<noteq> 0
                                                  then loadGridMapLiquidData f (liquidMapOffset header) gV
                                                  else (True, gV))
                                 in if \<not> okL then (False, gL) else (True, gL)
                else (False, g))"

subsection \<open>Height queries\<close>

definition isHole :: "'f GridMap \<Rightarrow> int \<Rightarrow> int \<Rightarrow> bool option" where
  "isHole g row col =
     (let cellRow = c_div row 8;
          cellCol = c_div col 8;
          holeRow = c_div (c_mod row 8) 2;
          holeCol = c_div (col - (cellCol * 8)) 2
      in if 0 \<le> cellRow \<and> cellRow < 16 \<and> 0 \<le> cellCol \<and> cellCol < 16
         then do {
           h \<leftarrow> elem_at holetab_h holeCol;
           v \<leftarrow> elem_at holetab_v holeRow;
           Some (m_holes g (nat cellRow) (nat cellCol) AND h AND v \<noteq> 0)
         }
         else None)"

definition getHeightFromFlat :: "'f GridMap \<Rightarrow> 'f \<Rightarrow> 'f \<Rightarrow> 'f option" where
  "getHeightFromFlat g x y = Some (m_gridHeight g)"

text \<open>Reading the union pointer at one of its element types.\<close>

definition as_float :: "'f samples option \<Rightarrow> 'f list option" where
  "as_float p = (case p of Some (FloatArr xs) \<Rightarrow> Some xs | _ \<Rightarrow> None)"

definition as_uint8 :: "'f samples option \<Rightarrow> 8 word list option" where
  "as_uint8 p = (case p of Some (Uint8Arr xs) \<Rightarrow> Some xs | _ \<Rightarrow> None)"

definition as_uint16 :: "'f samples option \<Rightarrow> 16 word list option" where
  "as_uint16 p = (case p of Some (Uint16Arr xs) \<Rightarrow> Some xs | _ \<Rightarrow> None)"

text \<open>
  In the three sampling functions \<open>x1\<close> is the float \<^verbatim>\<open>x\<close> after
  \<^verbatim>\<open>x = MAP_RESOLUTION * (32 - x / SIZE_OF_GRIDS)\<close>, \<open>x_int0\<close> is \<^verbatim>\<open>(int)x\<close>, and \<open>x\<close> is the float
  after \<^verbatim>\<open>x -= x_int\<close>, the difference of \<open>x1\<close> and the converted \<^verbatim>\<open>int\<close>. The result
  \<^verbatim>\<open>a * x + b * y + c\<close> is the sum of the two products, then the sum with \<open>c\<close>.
\<close>

definition getHeightFromFloat :: "'f float_ops \<Rightarrow> 'f GridMap \<Rightarrow> 'f \<Rightarrow> 'f \<Rightarrow> 'f option" where
  "getHeightFromFloat fp g x0 y0 =
     (if m_V8 g = None \<or> m_V9 g = None then Some (INVALID_HEIGHT_VALUE fp)
      else do {
        let x1 = scaled fp MAP_RESOLUTION x0;
        let y1 = scaled fp MAP_RESOLUTION y0;
        x_int0 \<leftarrow> f_to_int fp x1;
        y_int0 \<leftarrow> f_to_int fp y1;
        let x = fsub fp x1 (fint fp x_int0);
        let y = fsub fp y1 (fint fp y_int0);
        let x_int = x_int0 AND (MAP_RESOLUTION - 1);
        let y_int = y_int0 AND (MAP_RESOLUTION - 1);
        hole \<leftarrow> isHole g x_int y_int;
        if hole then Some (INVALID_HEIGHT_VALUE fp)
        else do {
          V9 \<leftarrow> as_float (m_V9 g);
          V8 \<leftarrow> as_float (m_V8 g);
          if fless fp (fadd fp x y) (fint fp 1)
          then
            if fless fp y x
            then do {
              h1 \<leftarrow> elem_at V9 (x_int * 129 + y_int);
              h2 \<leftarrow> elem_at V9 ((x_int + 1) * 129 + y_int);
              v8 \<leftarrow> elem_at V8 (x_int * 128 + y_int);
              let h5 = fmul fp (fint fp 2) v8;
              let a = fsub fp h2 h1;
              let b = fsub fp (fsub fp h5 h1) h2;
              let c = h1;
              Some (fadd fp (fadd fp (fmul fp a x) (fmul fp b y)) c)
            }
            else do {
              h1 \<leftarrow> elem_at V9 (x_int * 129 + y_int);
              h3 \<leftarrow> elem_at V9 (x_int * 129 + y_int + 1);
              v8 \<leftarrow> elem_at V8 (x_int * 128 + y_int);
              let h5 = fmul fp (fint fp 2) v8;
              let a = fsub fp (fsub fp h5 h1) h3;
              let b = fsub fp h3 h1;
              let c = h1;
              Some (fadd fp (fadd fp (fmul fp a x) (fmul fp b y)) c)
            }
          else
            if fless fp y x
            then do {
              h2 \<leftarrow> elem_at V9 ((x_int + 1) * 129 + y_int);
              h4 \<leftarrow> elem_at V9 ((x_int + 1) * 129 + y_int + 1);
              v8 \<leftarrow> elem_at V8 (x_int * 128 + y_int);
              let h5 = fmul fp (fint fp 2) v8;
              let a = fsub fp (fadd fp h2 h4) h5;
              let b = fsub fp h4 h2;
              let c = fsub fp h5 h4;
              Some (fadd fp (fadd fp (fmul fp a x) (fmul fp b y)) c)
            }
            else do {
              h3 \<leftarrow> elem_at V9 (x_int * 129 + y_int + 1);
              h4 \<leftarrow> elem_at V9 ((x_int + 1) * 129 + y_int + 1);
              v8 \<leftarrow> elem_at V8 (x_int * 128 + y_int);
              let h5 = fmul fp (fint fp 2) v8;
              let a = fsub fp h4 h3;
              let b = fsub fp (fadd fp h3 h4) h5;
              let c = fsub fp h5 h4;
              Some (fadd fp (fadd fp (fmul fp a x) (fmul fp b y)) c)
            }
        }
      })"

text \<open>
  In the two quantised functions the coefficients are \<^verbatim>\<open>int32\<close> values; the result is
  \<^verbatim>\<open>(float)((a * x) + (b * y) + c) * m_gridIntHeightMultiplier + m_gridHeight\<close>.
\<close>

definition getHeightFromUint8 :: "'f float_ops \<Rightarrow> 'f GridMap \<Rightarrow> 'f \<Rightarrow> 'f \<Rightarrow> 'f option" where
  "getHeightFromUint8 fp g x0 y0 =
     (if m_V8 g = None \<or> m_V9 g = None then Some (m_gridHeight g)
      else do {
        let x1 = scaled fp MAP_RESOLUTION x0;
        let y1 = scaled fp MAP_RESOLUTION y0;
        x_int0 \<leftarrow> f_to_int fp x1;
        y_int0 \<leftarrow> f_to_int fp y1;
        let x = fsub fp x1 (fint fp x_int0);
        let y = fsub fp y1 (fint fp y_int0);
        let x_int = x_int0 AND (MAP_RESOLUTION - 1);
        let y_int = y_int0 AND (MAP_RESOLUTION - 1);
        V9 \<leftarrow> as_uint8 (m_V9 g);
        V8 \<leftarrow> as_uint8 (m_V8 g);
        let V9_h1_ptr = x_int * 128 + x_int + y_int;
        (a, b, c) \<leftarrow>
          (if fless fp (fadd fp x y) (fint fp 1)
           then
             if fless fp y x
             then do {
               h1 \<leftarrow> map_option uint (elem_at V9 (V9_h1_ptr + 0));
               h2 \<leftarrow> map_option uint (elem_at V9 (V9_h1_ptr + 129));
               v8 \<leftarrow> map_option uint (elem_at V8 (x_int * 128 + y_int));
               let h5 = 2 * v8;
               Some (h2 - h1, h5 - h1 - h2, h1)
             }
             else do {
               h1 \<leftarrow> map_option uint (elem_at V9 (V9_h1_ptr + 0));
               h3 \<leftarrow> map_option uint (elem_at V9 (V9_h1_ptr + 1));
               v8 \<leftarrow> map_option uint (elem_at V8 (x_int * 128 + y_int));
               let h5 = 2 * v8;
               Some (h5 - h1 - h3, h3 - h1, h1)
             }
           else
             if fless fp y x
             then do {
               h2 \<leftarrow> map_option uint (elem_at V9 (V9_h1_ptr + 129));
               h4 \<leftarrow> map_option uint (elem_at V9 (V9_h1_ptr + 130));
               v8 \<leftarrow> map_option uint (elem_at V8 (x_int * 128 + y_int));
               let h5 = 2 * v8;
               Some (h2 + h4 - h5, h4 - h2, h5 - h4)
             }
             else do {
               h3 \<leftarrow> map_option uint (elem_at V9 (V9_h1_ptr + 1));
               h4 \<leftarrow> map_option uint (elem_at V9 (V9_h1_ptr + 130));
               v8 \<leftarrow> map_option uint (elem_at V8 (x_int * 128 + y_int));
               let h5 = 2 * v8;
               Some (h4 - h3, h3 + h4 - h5, h5 - h4)
             });
        Some (fadd fp
                (fmul fp
                   (fadd fp (fadd fp (fmul fp (fint fp a) x) (fmul fp (fint fp b) y)) (fint fp c))
                   (m_gridIntHeightMultiplier g))
                (m_gridHeight g))
      })"

definition getHeightFromUint16 :: "'f float_ops \<Rightarrow> 'f GridMap \<Rightarrow> 'f \<Rightarrow> 'f \<Rightarrow> 'f option" where
  "getHeightFromUint16 fp g x0 y0 =
     (if m_V8 g = None \<or> m_V9 g = None then Some (m_gridHeight g)
      else do {
        let x1 = scaled fp MAP_RESOLUTION x0;
        let y1 = scaled fp MAP_RESOLUTION y0;
        x_int0 \<leftarrow> f_to_int fp x1;
        y_int0 \<leftarrow> f_to_int fp y1;
        let x = fsub fp x1 (fint fp x_int0);
        let y = fsub fp y1 (fint fp y_int0);
        let x_int = x_int0 AND (MAP_RESOLUTION - 1);
        let y_int = y_int0 AND (MAP_RESOLUTION - 1);
        V9 \<leftarrow> as_uint16 (m_V9 g);
        V8 \<leftarrow> as_uint16 (m_V8 g);
        let V9_h1_ptr = x_int * 128 + x_int + y_int;
        (a, b, c) \<leftarrow>
          (if fless fp (fadd fp x y) (fint fp 1)
           then
             if fless fp y x
             then do {
               h1 \<leftarrow> map_option uint (elem_at V9 (V9_h1_ptr + 0));
               h2 \<leftarrow> map_option uint (elem_at V9 (V9_h1_ptr + 129));
               v8 \<leftarrow> map_option uint (elem_at V8 (x_int * 128 + y_int));
               let h5 = 2 * v8;
               Some (h2 - h1, h5 - h1 - h2, h1)
             }
             else do {
               h1 \<leftarrow> map_option uint (elem_at V9 (V9_h1_ptr + 0));
               h3 \<leftarrow> map_option uint (elem_at V9 (V9_h1_ptr + 1));
               v8 \<leftarrow> map_option uint (elem_at V8 (x_int * 128 + y_int));
               let h5 = 2 * v8;
               Some (h5 - h1 - h3, h3 - h1, h1)
             }
           else
             if fless fp y x
             then do {
               h2 \<leftarrow> map_option uint (elem_at V9 (V9_h1_ptr + 129));
               h4 \<leftarrow> map_option uint (elem_at V9 (V9_h1_ptr + 130));
               v8 \<leftarrow> map_option uint (elem_at V8 (x_int * 128 + y_int));
               let h5 = 2 * v8;
               Some (h2 + h4 - h5, h4 - h2, h5 - h4)
             }
             else do {
               h3 \<leftarrow> map_option uint (elem_at V9 (V9_h1_ptr + 1));
               h4 \<leftarrow> map_option uint (elem_at V9 (V9_h1_ptr + 130));
               v8 \<leftarrow> map_option uint (elem_at V8 (x_int * 128 + y_int));
               let h5 = 2 * v8;
               Some (h4 - h3, h3 + h4 - h5, h5 - h4)
             });
        Some (fadd fp
                (fmul fp
                   (fadd fp (fadd fp (fmul fp (fint fp a) x) (fmul fp (fint fp b) y)) (fint fp c))
                   (m_gridIntHeightMultiplier g))
                (m_gridHeight g))
      })"

text \<open>
  Modelled from the spec: \<^verbatim>\<open>getHeight\<close> is an inline member of \<^verbatim>\<open>GridMap.h\<close> that calls
  through the member pointer \<^verbatim>\<open>m_gridGetHeight\<close>; in the spec's words it "dispatches on the
  tile's active height-sampling strategy".
\<close>

definition getHeight :: "'f float_ops \<Rightarrow> 'f GridMap \<Rightarrow> 'f \<Rightarrow> 'f \<Rightarrow> 'f option" where
  "getHeight fp g x y =
     (case m_gridGetHeight g of
        getHeightFromFlat_ptr \<Rightarrow> getHeightFromFlat g x y
      | getHeightFromFloat_ptr \<Rightarrow> getHeightFromFloat fp g x y
      | getHeightFromUint8_ptr \<Rightarrow> getHeightFromUint8 fp g x y
      | getHeightFromUint16_ptr \<Rightarrow> getHeightFromUint16 fp g x y)"

subsection \<open>Area, terrain type and liquid queries\<close>

definition getArea :: "'f float_ops \<Rightarrow> 'f GridMap \<Rightarrow> 'f \<Rightarrow> 'f \<Rightarrow> 16 word option" where
  "getArea fp g x0 y0 =
     (case m_area_map g of
        None \<Rightarrow> Some (m_gridArea g)
      | Some area_map \<Rightarrow> do {
          let x = scaled fp 16 x0;
          let y = scaled fp 16 y0;
          xi \<leftarrow> f_to_int fp x;
          yi \<leftarrow> f_to_int fp y;
          let lx = xi AND 15;
          let ly = yi AND 15;
          elem_at area_map (lx * 16 + ly)
        })"


text \<open>
  Modelled from the spec: the metadata tables (\<^verbatim>\<open>sLiquidTypeStore\<close>, \<^verbatim>\<open>sAreaStore\<close>,
  \<^verbatim>\<open>GetAreaEntryByAreaID\<close>) and their entry types live in \<^verbatim>\<open>DBCStores.h\<close> and
  \<^verbatim>\<open>DBCStructure.h\<close>; the spec lists them as external lookups (liquid type by id, area by
  id, the area-liquid-override table). They are parameters here. An entry carries the
  fields the query reads; the override table of an area says which indices it has.
\<close>

record LiquidTypeEntry =
  liq_Id :: "32 word"
  liq_Type :: "32 word"

record AreaTableEntry =
  area_zone :: "32 word"
  area_LiquidTypeOverride :: "32 word \<Rightarrow> 32 word option"

record DBC =
  sLiquidTypeStore :: "32 word \<Rightarrow> LiquidTypeEntry option"
  sAreaStore :: "32 word \<Rightarrow> AreaTableEntry option"
  GetAreaEntryByAreaID :: "32 word \<Rightarrow> AreaTableEntry option"

record 'f GridMapLiquidData =
  type_flags :: "32 word"
  entry :: "32 word"
  level :: 'f
  depth_level :: 'f

text \<open>
  The liquid type and entry of a cell after the look-up in the metadata tables: the block
  of \<^verbatim>\<open>getLiquidStatus\<close> between "Check water type in cell" and the test \<^verbatim>\<open>type == 0\<close>.
\<close>

definition resolveLiquid ::
  "'f float_ops \<Rightarrow> DBC \<Rightarrow> 'f GridMap \<Rightarrow> 'f \<Rightarrow> 'f \<Rightarrow> 8 word \<Rightarrow> 32 word
     \<Rightarrow> (8 word \<times> 32 word) option" where
  "resolveLiquid fp dbc g x y type0 entry0 =
     (case sLiquidTypeStore dbc entry0 of
        None \<Rightarrow> Some (type0, entry0)
      | Some liquidEntry \<Rightarrow> do {
          let entry1 = liq_Id liquidEntry;
          let type1 = type0 AND MAP_LIQUID_TYPE_DEEP_WATER;
          let liqTypeIdx0 = liq_Type liquidEntry;
          (entry2, liqTypeIdx) \<leftarrow>
            (if entry1 < 21
             then do {
               areaId \<leftarrow> getArea fp g x y;
               case sAreaStore dbc (ucast areaId) of
                 None \<Rightarrow> Some (entry1, liqTypeIdx0)
               | Some area \<Rightarrow> do {
                   overrideLiquid0 \<leftarrow> area_LiquidTypeOverride area (entry1 - 1);
                   overrideLiquid \<leftarrow>
                     (if overrideLiquid0 = 0 \<and> area_zone area \<noteq> 0
                      then case GetAreaEntryByAreaID dbc (area_zone area) of
                             None \<Rightarrow> Some overrideLiquid0
                           | Some zone \<Rightarrow> area_LiquidTypeOverride zone (entry1 - 1)
                      else Some overrideLiquid0);
                   case sLiquidTypeStore dbc overrideLiquid of
                     None \<Rightarrow> Some (entry1, liqTypeIdx0)
                   | Some liq \<Rightarrow> Some (overrideLiquid, liq_Type liq)
                 }
             }
             else Some (entry1, liqTypeIdx0));
          if liqTypeIdx < 32
          then Some (type1 OR ucast (push_bit (unat liqTypeIdx) (1 :: 32 word))
                       OR (type1 AND MAP_LIQUID_TYPE_DEEP_WATER), entry2)
          else None
        })"

text \<open>
  \<^verbatim>\<open>GridMap::getLiquidStatus\<close>. The detail struct behind the pointer \<^verbatim>\<open>data\<close> is passed in
  (\<open>None\<close> for a null pointer) and returned with the result. The comparisons
  \<^verbatim>\<open>liquid_level < ground_level\<close>, \<^verbatim>\<open>z < ground_level - 2\<close> and those of \<^verbatim>\<open>delta\<close> are float
  comparisons, \<^verbatim>\<open>ground_level - 2\<close> and \<^verbatim>\<open>liquid_level - z\<close> float differences.
\<close>

definition getLiquidStatus ::
  "'f float_ops \<Rightarrow> DBC \<Rightarrow> 'f GridMap \<Rightarrow> 'f \<Rightarrow> 'f \<Rightarrow> 'f \<Rightarrow> 8 word
     \<Rightarrow> 'f GridMapLiquidData option \<Rightarrow> 'f
     \<Rightarrow> (GridMapLiquidStatus \<times> 'f GridMapLiquidData option) option" where
  "getLiquidStatus fp dbc g x y z ReqLiquidType data collisionHeight =
     (if m_liquidFlags g = None \<and> m_liquidGlobalFlags g = 0 then Some (LIQUID_MAP_NO_WATER, data)
      else do {
        let cx = scaled fp MAP_RESOLUTION x;
        let cy = scaled fp MAP_RESOLUTION y;
        cxi \<leftarrow> f_to_int fp cx;
        cyi \<leftarrow> f_to_int fp cy;
        let x_int = cxi AND (MAP_RESOLUTION - 1);
        let y_int = cyi AND (MAP_RESOLUTION - 1);
        let idx = drop_bit 3 x_int * 16 + drop_bit 3 y_int;
        type0 \<leftarrow> (case m_liquidFlags g of
                    Some liquidFlags \<Rightarrow> elem_at liquidFlags idx
                  | None \<Rightarrow> Some (m_liquidGlobalFlags g));
        entry0 \<leftarrow> (case m_liquidEntry g of
                     Some liquidEntry \<Rightarrow> map_option ucast (elem_at liquidEntry idx)
                   | None \<Rightarrow> Some (ucast (m_liquidGlobalEntry g)));
        (type, entry) \<leftarrow> resolveLiquid fp dbc g x y type0 entry0;
        if type = 0 then Some (LIQUID_MAP_NO_WATER, data)
        else if ReqLiquidType \<noteq> 0 \<and> ReqLiquidType AND type = 0 then Some (LIQUID_MAP_NO_WATER, data)
        else
          let lx_int = x_int - uint (m_liquid_offY g)
          in if lx_int < 0 \<or> lx_int \<ge> uint (m_liquid_height g) then Some (LIQUID_MAP_NO_WATER, data)
             else
               let ly_int = y_int - uint (m_liquid_offX g)
               in if ly_int < 0 \<or> ly_int \<ge> uint (m_liquid_width g) then Some (LIQUID_MAP_NO_WATER, data)
                  else do {
                    liquid_level \<leftarrow>
                      (case m_liquid_map g of
                         Some liquid_map \<Rightarrow> elem_at liquid_map (lx_int * uint (m_liquid_width g) + ly_int)
                       | None \<Rightarrow> Some (m_liquidLevel g));
                    ground_level \<leftarrow> getHeight fp g x y;
                    if fless fp liquid_level ground_level
                       \<or> fless fp z (fsub fp ground_level (fint fp 2))
                    then Some (LIQUID_MAP_NO_WATER, data)
                    else do {
                      let data' = map_option (\<lambda>d. d\<lparr> entry := entry,
                                                     type_flags := ucast type,
                                                     level := liquid_level,
                                                     depth_level := ground_level \<rparr>) data;
                      let delta = fsub fp liquid_level z;
                      if fless fp collisionHeight delta then Some (LIQUID_MAP_UNDER_WATER, data')
                      else if fless fp (fint fp 0) delta then Some (LIQUID_MAP_IN_WATER, data')
                      else if fless fp (fint fp (- 1)) delta then Some (LIQUID_MAP_WATER_WALK, data')
                      else Some (LIQUID_MAP_ABOVE_WATER, data')
                    }
                  }
      })"

subsection \<open>The tile cache\<close>

text \<open>
  Modelled from the spec: \<^verbatim>\<open>IntervalTimer\<close> is declared in \<^verbatim>\<open>Timer.h\<close>. The spec's "internal
  interval timer" accumulates the elapsed milliseconds, has passed once they reach the
  interval, and is reset by taking one interval off.
\<close>

record IntervalTimer =
  timer_interval :: int
  timer_current :: int

definition timer_Update :: "int \<Rightarrow> IntervalTimer \<Rightarrow> IntervalTimer" where
  "timer_Update diff tm =
     (let c = timer_current tm + diff in tm\<lparr> timer_current := (if c < 0 then 0 else c) \<rparr>)"

definition timer_Passed :: "IntervalTimer \<Rightarrow> bool" where
  "timer_Passed tm = (timer_current tm \<ge> timer_interval tm)"

definition timer_Reset :: "IntervalTimer \<Rightarrow> IntervalTimer" where
  "timer_Reset tm =
     (if timer_current tm \<ge> timer_interval tm
      then tm\<lparr> timer_current := timer_current tm - timer_interval tm \<rparr> else tm)"

text \<open>
  Modelled from the spec: the collision-mesh provider (\<^verbatim>\<open>VMAP::IVMapManager\<close>) and the
  navmesh provider (\<^verbatim>\<open>MMAP::MMapManager\<close>) are external. Each keeps the set of tiles it has
  loaded; \<open>load\<close> answers \<open>Ok\<close>, \<open>Error\<close> or \<open>Ignored\<close> (a \<^verbatim>\<open>bool\<close> for the navmesh) as
  the data on disk decides and records the tile when it succeeds; \<open>unload\<close> forgets the
  tile.
\<close>

datatype VMAP_LOAD_RESULT =
  VMAP_LOAD_RESULT_ERROR
  | VMAP_LOAD_RESULT_OK
  | VMAP_LOAD_RESULT_IGNORED

type_synonym tiles = "32 word \<Rightarrow> nat \<Rightarrow> nat \<Rightarrow> bool"

text \<open>What is on disk: the tile files, and what the two providers answer to a load.\<close>

record 'f Env =
  map_file :: "32 word \<Rightarrow> nat \<Rightarrow> nat \<Rightarrow> 'f MapFile option"
  vmap_file :: "32 word \<Rightarrow> nat \<Rightarrow> nat \<Rightarrow> VMAP_LOAD_RESULT"
  mmap_file :: "32 word \<Rightarrow> nat \<Rightarrow> nat \<Rightarrow> bool"

definition IsTileLoaded :: "tiles \<Rightarrow> 32 word \<Rightarrow> nat \<Rightarrow> nat \<Rightarrow> bool" where
  "IsTileLoaded vm mapId x y = vm mapId x y"

definition vmap_loadMap :: "'f Env \<Rightarrow> tiles \<Rightarrow> 32 word \<Rightarrow> nat \<Rightarrow> nat \<Rightarrow> VMAP_LOAD_RESULT \<times> tiles" where
  "vmap_loadMap env vm mapId x y =
     (let r = vmap_file env mapId x y
      in (r, if r = VMAP_LOAD_RESULT_OK then vm(mapId := (vm mapId)(x := (vm mapId x)(y := True))) else vm))"

definition vmap_unloadMap :: "tiles \<Rightarrow> 32 word \<Rightarrow> nat \<Rightarrow> nat \<Rightarrow> tiles" where
  "vmap_unloadMap vm mapId x y = vm(mapId := (vm mapId)(x := (vm mapId x)(y := False)))"

definition IsMMapIsLoaded :: "tiles \<Rightarrow> 32 word \<Rightarrow> nat \<Rightarrow> nat \<Rightarrow> bool" where
  "IsMMapIsLoaded mm mapId x y = mm mapId x y"

definition mmap_loadMap :: "'f Env \<Rightarrow> tiles \<Rightarrow> 32 word \<Rightarrow> nat \<Rightarrow> nat \<Rightarrow> bool \<times> tiles" where
  "mmap_loadMap env mm mapId x y =
     (let r = mmap_file env mapId x y
      in (r, if r then mm(mapId := (mm mapId)(x := (mm mapId x)(y := True))) else mm))"

definition mmap_unloadMap :: "tiles \<Rightarrow> 32 word \<Rightarrow> nat \<Rightarrow> nat \<Rightarrow> tiles" where
  "mmap_unloadMap mm mapId x y = mm(mapId := (mm mapId)(x := (mm mapId x)(y := False)))"

text \<open>
  \<^verbatim>\<open>TerrainInfo\<close>. The three arrays \<^verbatim>\<open>[MAX_NUMBER_OF_GRIDS][MAX_NUMBER_OF_GRIDS]\<close> are functions
  of the two indices; every access checks the indices first. \<open>m_vmgr\<close> is the state of the
  collision-mesh provider behind the member pointer of that name, \<open>mmap_mgr\<close>
  the state of the navmesh singleton.
\<close>

record 'f TerrainInfo =
  m_mapId :: "32 word"
  m_GridMaps :: "nat \<Rightarrow> nat \<Rightarrow> 'f GridMap option"
  m_GridRef :: "nat \<Rightarrow> nat \<Rightarrow> 16 word"
  m_GridMapsLoadAttempted :: "nat \<Rightarrow> nat \<Rightarrow> bool"
  i_timer :: IntervalTimer
  m_vmgr :: tiles
  mmap_mgr :: tiles

definition upd2 :: "(nat \<Rightarrow> nat \<Rightarrow> 'a) \<Rightarrow> nat \<Rightarrow> nat \<Rightarrow> 'a \<Rightarrow> (nat \<Rightarrow> nat \<Rightarrow> 'a)" where
  "upd2 a x y v = a(x := (a x)(y := v))"

text \<open>
  The constructor; \<open>iRandomStart\<close> is the value drawn by \<^verbatim>\<open>urand(20, 40)\<close>, the two
  provider states are the ones of the process.
\<close>

definition TerrainInfo_new :: "32 word \<Rightarrow> int \<Rightarrow> tiles \<Rightarrow> tiles \<Rightarrow> 'f TerrainInfo" where
  "TerrainInfo_new mapid iRandomStart vm mm =
     \<lparr> m_mapId = mapid,
       m_GridMaps = (\<lambda>_ _. None),
       m_GridRef = (\<lambda>_ _. 0),
       m_GridMapsLoadAttempted = (\<lambda>_ _. False),
       i_timer = \<lparr> timer_interval = 60 * 1000, timer_current = iRandomStart * 1000 \<rparr>,
       m_vmgr = vm,
       mmap_mgr = mm \<rparr>"

definition RefGrid :: "nat \<Rightarrow> nat \<Rightarrow> 'f TerrainInfo \<Rightarrow> (int \<times> 'f TerrainInfo) option" where
  "RefGrid x y t =
     (if \<not> x < MAX_NUMBER_OF_GRIDS then None
      else if \<not> y < MAX_NUMBER_OF_GRIDS then None
      else
        let v = m_GridRef t x y + 1
        in Some (sint v, t\<lparr> m_GridRef := upd2 (m_GridRef t) x y v \<rparr>))"

definition UnrefGrid :: "nat \<Rightarrow> nat \<Rightarrow> 'f TerrainInfo \<Rightarrow> (int \<times> 'f TerrainInfo) option" where
  "UnrefGrid x y t =
     (if \<not> x < MAX_NUMBER_OF_GRIDS then None
      else if \<not> y < MAX_NUMBER_OF_GRIDS then None
      else
        let iRef = m_GridRef t x y
        in if 0 <s iRef
           then Some (sint (iRef - 1), t\<lparr> m_GridRef := upd2 (m_GridRef t) x y (iRef - 1) \<rparr>)
           else Some (0, t))"

definition LoadMapAndVMap ::
  "'f float_ops \<Rightarrow> 'f Env \<Rightarrow> nat \<Rightarrow> nat \<Rightarrow> bool \<Rightarrow> 'f TerrainInfo
     \<Rightarrow> ('f GridMap option \<times> 'f TerrainInfo) option" where
  "LoadMapAndVMap fp env x y mapOnly t =
     (if \<not> (x < MAX_NUMBER_OF_GRIDS \<and> y < MAX_NUMBER_OF_GRIDS) then None
      else if (m_GridMaps t x y \<noteq> None \<and> mapOnly)
              \<or> (IsTileLoaded (m_vmgr t) (m_mapId t) x y \<and> IsMMapIsLoaded (mmap_mgr t) (m_mapId t) x y)
      then Some (m_GridMaps t x y, t)
      else
        let t1 = (if m_GridMaps t x y = None
                  then
                    let (ok, map) = loadData fp (map_file env (m_mapId t) x y) (GridMap_new fp)
                    in t\<lparr> m_GridMaps := upd2 (m_GridMaps t) x y (Some map) \<rparr>
                  else t)
        in if mapOnly then Some (m_GridMaps t1 x y, t1)
           else
             let t2 = (if \<not> IsTileLoaded (m_vmgr t1) (m_mapId t1) x y
                       then t1\<lparr> m_vmgr := snd (vmap_loadMap env (m_vmgr t1) (m_mapId t1) x y) \<rparr>
                       else t1);
                 t3 = (if \<not> IsMMapIsLoaded (mmap_mgr t2) (m_mapId t2) x y
                       then t2\<lparr> mmap_mgr := snd (mmap_loadMap env (mmap_mgr t2) (m_mapId t2) x y) \<rparr>
                       else t2);
                 t4 = (case m_GridMaps t3 x y of
                         Some m \<Rightarrow> t3\<lparr> m_GridMaps := upd2 (m_GridMaps t3) x y (Some (SetFullyLoaded m)) \<rparr>
                       | None \<Rightarrow> t3)
             in Some (m_GridMaps t4 x y, t4))"

definition Load ::
  "'f float_ops \<Rightarrow> 'f Env \<Rightarrow> nat \<Rightarrow> nat \<Rightarrow> bool \<Rightarrow> 'f TerrainInfo
     \<Rightarrow> ('f GridMap option \<times> 'f TerrainInfo) option" where
  "Load fp env x y mapOnly t =
     (if \<not> x < MAX_NUMBER_OF_GRIDS then None
      else if \<not> y < MAX_NUMBER_OF_GRIDS then None
      else do {
        (r, t1) \<leftarrow> RefGrid x y t;
        case m_GridMaps t1 x y of
          None \<Rightarrow> do {
            (pMap, t2) \<leftarrow> LoadMapAndVMap fp env x y mapOnly t1;
            Some (pMap, t2\<lparr> m_GridMapsLoadAttempted := upd2 (m_GridMapsLoadAttempted t2) x y True \<rparr>)
          }
        | Some pMap \<Rightarrow> Some (Some pMap, t1)
      })"

definition Unload :: "nat \<Rightarrow> nat \<Rightarrow> 'f TerrainInfo \<Rightarrow> 'f TerrainInfo option" where
  "Unload x y t =
     (if \<not> x < MAX_NUMBER_OF_GRIDS then None
      else if \<not> y < MAX_NUMBER_OF_GRIDS then None
      else
        case m_GridMaps t x y of
          None \<Rightarrow> Some t
        | Some pMap \<Rightarrow> do {
            (r, t1) \<leftarrow> UnrefGrid x y t;
            if r = 0
            then Some (t1\<lparr> m_GridMapsLoadAttempted := upd2 (m_GridMapsLoadAttempted t1) x y False \<rparr>)
            else Some t1
          })"

text \<open>The body of the two loops of \<^verbatim>\<open>CleanUpGrids\<close>, for one slot.\<close>

definition cleanUpSlot :: "nat \<Rightarrow> nat \<Rightarrow> 'f TerrainInfo \<Rightarrow> 'f TerrainInfo" where
  "cleanUpSlot x y t =
     (let iRef = m_GridRef t x y;
          pMap = m_GridMaps t x y
      in if pMap \<noteq> None \<and> iRef = 0
         then t\<lparr> m_GridMaps := upd2 (m_GridMaps t) x y None,
                 m_GridMapsLoadAttempted := upd2 (m_GridMapsLoadAttempted t) x y False,
                 m_vmgr := vmap_unloadMap (m_vmgr t) (m_mapId t) x y,
                 mmap_mgr := mmap_unloadMap (mmap_mgr t) (m_mapId t) x y \<rparr>
         else t)"

definition CleanUpGrids :: "32 word \<Rightarrow> 'f TerrainInfo \<Rightarrow> 'f TerrainInfo" where
  "CleanUpGrids diff t =
     (let t1 = t\<lparr> i_timer := timer_Update (uint diff) (i_timer t) \<rparr>
      in if \<not> timer_Passed (i_timer t1) then t1
         else
           let t2 = fold (\<lambda>y. fold (\<lambda>x. cleanUpSlot x y) [0..<MAX_NUMBER_OF_GRIDS])
                      [0..<MAX_NUMBER_OF_GRIDS] t1
           in t2\<lparr> i_timer := timer_Reset (i_timer t2) \<rparr>)"



subsection \<open>Single-precision arithmetic\<close>

text \<open>
  The float arithmetic of the compiled code, IEEE single precision with rounding to the
  nearest value, ties to the even one. A float is a finite number, an infinity or
  not-a-number. The sign of a zero is not kept: it shows only in a division by zero, and the
  file divides by non-zero constants only.
\<close>

datatype float32 = Finite real | PlusInf | MinusInf | NaN

text \<open>
  The binary exponent of a non-zero number, counted by halving or doubling it into the
  interval from 1 to 2. It ranges from -126, the exponent of the subnormal numbers, to 128,
  where every number rounds to an infinity.
\<close>

fun halvings :: "nat \<Rightarrow> real \<Rightarrow> int" where
  "halvings 0 x = 0"
| "halvings (Suc n) x = (if x < 2 then 0 else 1 + halvings n (x / 2))"

fun doublings :: "nat \<Rightarrow> real \<Rightarrow> int" where
  "doublings 0 x = 0"
| "doublings (Suc n) x = (if 1 \<le> x then 0 else doublings n (2 * x) - 1)"

definition exponent :: "real \<Rightarrow> int" where
  "exponent x = (if 1 \<le> \<bar>x\<bar> then halvings 128 \<bar>x\<bar> else doublings 126 \<bar>x\<bar>)"

definition pow2 :: "int \<Rightarrow> real" where
  "pow2 e = (if 0 \<le> e then 2 ^ nat e else 1 / 2 ^ nat (- e))"

definition round_half_even :: "real \<Rightarrow> int" where
  "round_half_even r =
     (let n = \<lfloor>r\<rfloor>
      in if r - of_int n < 1 / 2 then n
         else if 1 / 2 < r - of_int n then n + 1
         else if even n then n else n + 1)"

text \<open>
  The float nearest to a real number: a multiple of the unit in the last of the 24 binary
  digits, or an infinity from \<open>2 ^ 128\<close> on.
\<close>

definition round32 :: "real \<Rightarrow> float32" where
  "round32 x =
     (if x = 0 then Finite 0
      else
        let u = pow2 (exponent x - 23);
            r = of_int (round_half_even (x / u)) * u
        in if 2 ^ 128 \<le> \<bar>r\<bar> then (if 0 < x then PlusInf else MinusInf) else Finite r)"

definition signed_inf :: "bool \<Rightarrow> float32" where
  "signed_inf positive = (if positive then PlusInf else MinusInf)"

fun f32_neg :: "float32 \<Rightarrow> float32" where
  "f32_neg (Finite x) = Finite (- x)"
| "f32_neg PlusInf = MinusInf"
| "f32_neg MinusInf = PlusInf"
| "f32_neg NaN = NaN"

fun f32_add :: "float32 \<Rightarrow> float32 \<Rightarrow> float32" where
  "f32_add (Finite x) (Finite y) = round32 (x + y)"
| "f32_add (Finite x) PlusInf = PlusInf"
| "f32_add (Finite x) MinusInf = MinusInf"
| "f32_add PlusInf (Finite y) = PlusInf"
| "f32_add PlusInf PlusInf = PlusInf"
| "f32_add PlusInf MinusInf = NaN"
| "f32_add MinusInf (Finite y) = MinusInf"
| "f32_add MinusInf MinusInf = MinusInf"
| "f32_add MinusInf PlusInf = NaN"
| "f32_add NaN b = NaN"
| "f32_add a NaN = NaN"

definition f32_sub :: "float32 \<Rightarrow> float32 \<Rightarrow> float32" where
  "f32_sub a b = f32_add a (f32_neg b)"

fun f32_mul :: "float32 \<Rightarrow> float32 \<Rightarrow> float32" where
  "f32_mul (Finite x) (Finite y) = round32 (x * y)"
| "f32_mul (Finite x) PlusInf = (if x = 0 then NaN else signed_inf (0 < x))"
| "f32_mul (Finite x) MinusInf = (if x = 0 then NaN else signed_inf (x < 0))"
| "f32_mul PlusInf (Finite y) = (if y = 0 then NaN else signed_inf (0 < y))"
| "f32_mul MinusInf (Finite y) = (if y = 0 then NaN else signed_inf (y < 0))"
| "f32_mul PlusInf PlusInf = PlusInf"
| "f32_mul PlusInf MinusInf = MinusInf"
| "f32_mul MinusInf PlusInf = MinusInf"
| "f32_mul MinusInf MinusInf = PlusInf"
| "f32_mul NaN b = NaN"
| "f32_mul a NaN = NaN"

fun f32_div :: "float32 \<Rightarrow> float32 \<Rightarrow> float32" where
  "f32_div (Finite x) (Finite y) =
     (if y = 0 then (if x = 0 then NaN else signed_inf (0 < x)) else round32 (x / y))"
| "f32_div (Finite x) PlusInf = Finite 0"
| "f32_div (Finite x) MinusInf = Finite 0"
| "f32_div PlusInf (Finite y) = signed_inf (0 \<le> y)"
| "f32_div MinusInf (Finite y) = signed_inf (y < 0)"
| "f32_div PlusInf PlusInf = NaN"
| "f32_div PlusInf MinusInf = NaN"
| "f32_div MinusInf PlusInf = NaN"
| "f32_div MinusInf MinusInf = NaN"
| "f32_div NaN b = NaN"
| "f32_div a NaN = NaN"

fun f32_less :: "float32 \<Rightarrow> float32 \<Rightarrow> bool" where
  "f32_less (Finite x) (Finite y) = (x < y)"
| "f32_less (Finite x) PlusInf = True"
| "f32_less MinusInf (Finite y) = True"
| "f32_less MinusInf PlusInf = True"
| "f32_less a b = False"

text \<open>
  \<^verbatim>\<open>(int)x\<close> of a float truncates towards zero and is undefined when the result does not
  fit a 32-bit \<^verbatim>\<open>int\<close>, and for an infinity and not-a-number.
\<close>

definition c_int :: "real \<Rightarrow> int option" where
  "c_int x =
     (let t = (if 0 \<le> x then \<lfloor>x\<rfloor> else \<lceil>x\<rceil>)
      in if - 2147483648 \<le> t \<and> t \<le> 2147483647 then Some t else None)"

fun f32_to_int :: "float32 \<Rightarrow> int option" where
  "f32_to_int (Finite x) = c_int x"
| "f32_to_int a = None"

text \<open>
  Modelled from the spec: the two float constants are the ones of the project's header
  \<^verbatim>\<open>GridDefines.h\<close>, \<^verbatim>\<open>533.33333f\<close> for the side length of a tile and \<^verbatim>\<open>-200000.0f\<close> for the
  sentinel. The general theorems below hold for every float arithmetic and do not use the
  two values; they enter the concrete examples only.
\<close>

definition binary32 :: "float32 float_ops" where
  "binary32 =
     \<lparr> fadd = f32_add,
       fsub = f32_sub,
       fmul = f32_mul,
       fdiv = f32_div,
       fless = f32_less,
       fint = (\<lambda>i. round32 (real_of_int i)),
       f_to_int = f32_to_int,
       SIZE_OF_GRIDS = round32 533.33333,
       INVALID_HEIGHT_VALUE = round32 (- 200000) \<rparr>"

subsection \<open>Repeated reference counting\<close>

fun RefGrid_times :: "nat \<Rightarrow> nat \<Rightarrow> nat \<Rightarrow> 'f TerrainInfo \<Rightarrow> 'f TerrainInfo option" where
  "RefGrid_times 0 x y t = Some t"
| "RefGrid_times (Suc n) x y t =
     (case RefGrid x y t of None \<Rightarrow> None | Some (r, t1) \<Rightarrow> RefGrid_times n x y t1)"

fun UnrefGrid_times :: "nat \<Rightarrow> nat \<Rightarrow> nat \<Rightarrow> 'f TerrainInfo \<Rightarrow> 'f TerrainInfo option" where
  "UnrefGrid_times 0 x y t = Some t"
| "UnrefGrid_times (Suc n) x y t =
     (case UnrefGrid x y t of None \<Rightarrow> None | Some (r, t1) \<Rightarrow> UnrefGrid_times n x y t1)"

definition set_ref :: "nat \<Rightarrow> nat \<Rightarrow> 16 word \<Rightarrow> 'f TerrainInfo \<Rightarrow> 'f TerrainInfo" where
  "set_ref x y v t = t\<lparr> m_GridRef := upd2 (m_GridRef t) x y v \<rparr>"

definition no_tiles :: tiles where
  "no_tiles = (\<lambda>_ _ _. False)"

definition refcount :: "nat \<Rightarrow> nat \<Rightarrow> 'f TerrainInfo \<Rightarrow> int" where
  "refcount x y t = sint (m_GridRef t x y)"

definition example_terrain :: "float32 TerrainInfo" where
  "example_terrain = TerrainInfo_new 0 20 no_tiles no_tiles"

subsection \<open>Example files\<close>

definition blank_holes :: "nat \<Rightarrow> nat \<Rightarrow> 16 word" where
  "blank_holes = (\<lambda>_ _. 0)"

definition blank_file :: "float32 MapFile" where
  "blank_file =
     \<lparr> read_FileHeader =
         \<lparr> mapMagic = 0, versionMagic = 0, areaMapOffset = 0, areaMapSize = 0,
           heightMapOffset = 0, heightMapSize = 0, liquidMapOffset = 0, liquidMapSize = 0,
           holesOffset = 0, holesSize = 0 \<rparr>,
       read_AreaHeader = (\<lambda>_. \<lparr> area_fourcc = 0, area_flags = 0, area_gridArea = 0 \<rparr>),
       read_area_map = (\<lambda>_ _. 0),
       read_holes = (\<lambda>_ _. (True, blank_holes)),
       read_HeightHeader =
         (\<lambda>_. \<lparr> height_fourcc = 0, height_flags = 0, height_gridHeight = Finite 0,
                height_gridMaxHeight = Finite 0 \<rparr>),
       read_uint16_V9 = (\<lambda>_ _. 0),
       read_uint16_V8 = (\<lambda>_ _. 0),
       read_uint8_V9 = (\<lambda>_ _. 0),
       read_uint8_V8 = (\<lambda>_ _. 0),
       read_V9 = (\<lambda>_ _. Finite 0),
       read_V8 = (\<lambda>_ _. Finite 0),
       read_LiquidHeader =
         (\<lambda>_. \<lparr> liquid_fourcc = 0, liquid_flags = 0, liquid_liquidFlags = 0, liquid_liquidType = 0,
                liquid_offsetX = 0, liquid_offsetY = 0, liquid_width = 0, liquid_height = 0,
                liquid_liquidLevel = Finite 0 \<rparr>),
       read_liquidEntry = (\<lambda>_ _. 0),
       read_liquidFlags = (\<lambda>_ _. 0),
       read_liquid_map = (\<lambda>_ _. Finite 0) \<rparr>"

text \<open>
  A file with a good root header, a good area block at offset 40 and a height block at
  offset 600 whose tag is wrong.
\<close>

definition bad_height_file :: "float32 MapFile" where
  "bad_height_file =
     blank_file
       \<lparr> read_FileHeader :=
           (read_FileHeader blank_file)
             \<lparr> mapMagic := MAP_MAGIC, versionMagic := MAP_VERSION_MAGIC,
               areaMapOffset := 40, heightMapOffset := 600 \<rparr>,
         read_AreaHeader := (\<lambda>_. \<lparr> area_fourcc = MAP_AREA_MAGIC, area_flags = 0, area_gridArea = 7 \<rparr>) \<rparr>"

text \<open>The file as it would be without some of its sub-blocks.\<close>

definition without_liquid :: "'f MapFile \<Rightarrow> 'f MapFile" where
  "without_liquid f = f\<lparr> read_FileHeader := (read_FileHeader f)\<lparr> liquidMapOffset := 0 \<rparr> \<rparr>"

definition without_height_liquid :: "'f MapFile \<Rightarrow> 'f MapFile" where
  "without_height_liquid f =
     f\<lparr> read_FileHeader := (read_FileHeader f)\<lparr> heightMapOffset := 0, liquidMapOffset := 0 \<rparr> \<rparr>"

text \<open>
  The four checks of \<^verbatim>\<open>loadData\<close> on a file, and its four stages: each sub-block is loaded
  when its offset is not 0.
\<close>

definition root_ok :: "'f MapFile \<Rightarrow> bool" where
  "root_ok f = (mapMagic (read_FileHeader f) = MAP_MAGIC \<and> versionMagic (read_FileHeader f) = MAP_VERSION_MAGIC)"

definition area_ok :: "'f MapFile \<Rightarrow> bool" where
  "area_ok f = (areaMapOffset (read_FileHeader f) = 0
      \<or> area_fourcc (read_AreaHeader f (areaMapOffset (read_FileHeader f))) = MAP_AREA_MAGIC)"

definition height_ok :: "'f MapFile \<Rightarrow> bool" where
  "height_ok f = (heightMapOffset (read_FileHeader f) = 0
      \<or> height_fourcc (read_HeightHeader f (heightMapOffset (read_FileHeader f))) = MAP_HEIGHT_MAGIC)"

definition liquid_ok :: "'f MapFile \<Rightarrow> bool" where
  "liquid_ok f = (liquidMapOffset (read_FileHeader f) = 0
      \<or> liquid_fourcc (read_LiquidHeader f (liquidMapOffset (read_FileHeader f))) = MAP_LIQUID_MAGIC)"

definition stage_area :: "'f MapFile \<Rightarrow> 'f GridMap \<Rightarrow> bool \<times> 'f GridMap" where
  "stage_area f g = (if areaMapOffset (read_FileHeader f) \<noteq> 0
                     then loadAreaData f (areaMapOffset (read_FileHeader f)) g else (True, g))"

definition stage_holes :: "'f MapFile \<Rightarrow> 'f GridMap \<Rightarrow> bool \<times> 'f GridMap" where
  "stage_holes f g = (if holesOffset (read_FileHeader f) \<noteq> 0
                     then loadHolesData f (holesOffset (read_FileHeader f)) g else (True, g))"

definition stage_height ::
  "'f float_ops \<Rightarrow> 'f MapFile \<Rightarrow> 'f GridMap \<Rightarrow> bool \<times> 'f GridMap" where
  "stage_height fp f g = (if heightMapOffset (read_FileHeader f) \<noteq> 0
                     then loadHeightData fp f (heightMapOffset (read_FileHeader f)) g else (True, g))"

definition stage_liquid :: "'f MapFile \<Rightarrow> 'f GridMap \<Rightarrow> bool \<times> 'f GridMap" where
  "stage_liquid f g = (if liquidMapOffset (read_FileHeader f) \<noteq> 0
                     then loadGridMapLiquidData f (liquidMapOffset (read_FileHeader f)) g else (True, g))"

subsection \<open>What the cache holds for one tile\<close>

text \<open>
  The store of a slot, its count, its load-attempted flag, and whether the two providers
  hold the tile.
\<close>

definition slot_view ::
  "nat \<Rightarrow> nat \<Rightarrow> 'f TerrainInfo \<Rightarrow> 'f GridMap option \<times> 16 word \<times> bool \<times> bool \<times> bool" where
  "slot_view x y t =
     (m_GridMaps t x y, m_GridRef t x y, m_GridMapsLoadAttempted t x y,
      IsTileLoaded (m_vmgr t) (m_mapId t) x y, IsMMapIsLoaded (mmap_mgr t) (m_mapId t) x y)"

definition clean_view ::
  "'f GridMap option \<times> 16 word \<times> bool \<times> bool \<times> bool
     \<Rightarrow> 'f GridMap option \<times> 16 word \<times> bool \<times> bool \<times> bool" where
  "clean_view v =
     (case v of (p, r, a, vm, mm) \<Rightarrow>
        if p \<noteq> None \<and> r = 0 then (None, r, False, False, False) else (p, r, a, vm, mm))"

text \<open>A cache with one loaded, unreferenced tile at (3, 5).\<close>

definition loaded_terrain :: "float32 TerrainInfo" where
  "loaded_terrain =
     example_terrain\<lparr> m_GridMaps := upd2 (m_GridMaps example_terrain) 3 5 (Some (GridMap_new binary32)) \<rparr>"

subsection \<open>Example environments\<close>

text \<open>
  Everything fails: the tile file has a wrong root magic, the collision-mesh provider
  answers with an error, the navmesh provider with \<^verbatim>\<open>false\<close>.
\<close>

definition failing_env :: "float32 Env" where
  "failing_env =
     \<lparr> map_file = (\<lambda>_ _ _. Some blank_file),
       vmap_file = (\<lambda>_ _ _. VMAP_LOAD_RESULT_ERROR),
       mmap_file = (\<lambda>_ _ _. False) \<rparr>"

text \<open>The flag of the store that a load hands back; false without a store.\<close>

definition returned_fully_loaded :: "('f GridMap option \<times> 'f TerrainInfo) option \<Rightarrow> bool" where
  "returned_fully_loaded r = (case r of Some (Some g, t) \<Rightarrow> IsFullyLoaded g | _ \<Rightarrow> False)"

subsection \<open>Cells and triangles, in the words of the spec\<close>

text \<open>
  The fractional position of a point in its cell: what is left of the tile-local coordinate
  after its integer part \<open>xi\<close> is taken off.
\<close>

definition cell_fraction :: "'f float_ops \<Rightarrow> 'f \<Rightarrow> int \<Rightarrow> 'f" where
  "cell_fraction fp x xi = fsub fp (scaled fp MAP_RESOLUTION x) (fint fp xi)"

datatype triangle = Triangle1 | Triangle2 | Triangle3 | Triangle4

text \<open>
  The selection rule of the spec: \<open>fx + fy < 1\<close> is the upper half (triangles 1 and 2),
  otherwise the lower half (3 and 4); within a half \<open>fx > fy\<close> picks the first of the two.
\<close>

definition select_triangle :: "'f float_ops \<Rightarrow> 'f \<Rightarrow> 'f \<Rightarrow> triangle" where
  "select_triangle fp fx fy =
     (if fless fp (fadd fp fx fy) (fint fp 1)
      then (if fless fp fy fx then Triangle1 else Triangle2)
      else (if fless fp fy fx then Triangle3 else Triangle4))"

text \<open>
  The plane \<open>a * fx + b * fy + c\<close> of each triangle, from the corner values \<open>h1\<close> at (0,0),
  \<open>h2\<close> at (1,0), \<open>h3\<close> at (0,1), \<open>h4\<close> at (1,1) and the centre value \<open>m\<close> at (1/2,1/2):
  two adjacent corners and twice the centre. The sums and differences are taken from left
  to right.
\<close>

definition twice :: "'f float_ops \<Rightarrow> 'f \<Rightarrow> 'f" where
  "twice fp m = fmul fp (fint fp 2) m"

fun plane_coeffs :: "'f float_ops \<Rightarrow> triangle \<Rightarrow> 'f \<Rightarrow> 'f \<Rightarrow> 'f \<Rightarrow> 'f \<Rightarrow> 'f \<Rightarrow> 'f \<times> 'f \<times> 'f" where
  "plane_coeffs fp Triangle1 h1 h2 h3 h4 m =
     (fsub fp h2 h1, fsub fp (fsub fp (twice fp m) h1) h2, h1)"
| "plane_coeffs fp Triangle2 h1 h2 h3 h4 m =
     (fsub fp (fsub fp (twice fp m) h1) h3, fsub fp h3 h1, h1)"
| "plane_coeffs fp Triangle3 h1 h2 h3 h4 m =
     (fsub fp (fadd fp h2 h4) (twice fp m), fsub fp h4 h2, fsub fp (twice fp m) h4)"
| "plane_coeffs fp Triangle4 h1 h2 h3 h4 m =
     (fsub fp h4 h3, fsub fp (fadd fp h3 h4) (twice fp m), fsub fp (twice fp m) h4)"

definition plane_at :: "'f float_ops \<Rightarrow> 'f \<times> 'f \<times> 'f \<Rightarrow> 'f \<Rightarrow> 'f \<Rightarrow> 'f" where
  "plane_at fp p fx fy =
     (case p of (a, b, c) \<Rightarrow> fadd fp (fadd fp (fmul fp a fx) (fmul fp b fy)) c)"

text \<open>A tile with float heights: every corner is 3, every centre is 4, no holes.\<close>

definition float_tile :: "float32 GridMap" where
  "float_tile =
     (GridMap_new binary32)
       \<lparr> m_gridGetHeight := getHeightFromFloat_ptr,
         m_V9 := Some (FloatArr (replicate (129 * 129) (Finite 3))),
         m_V8 := Some (FloatArr (replicate (128 * 128) (Finite 4))) \<rparr>"

text \<open>The same tile with every cell marked as a hole.\<close>

definition holed_float_tile :: "float32 GridMap" where
  "holed_float_tile = float_tile\<lparr> m_holes := (\<lambda>_ _. 0xFFFF) \<rparr>"

text \<open>
  The same tile with the hole bit \<^verbatim>\<open>0x0001\<close> in the mask of its first block of cells: the
  cells of rows 0 and 1, columns 0 and 1 are holes.
\<close>

definition corner_hole_tile :: "float32 GridMap" where
  "corner_hole_tile =
     float_tile\<lparr> m_holes := (\<lambda>r c. if r = 0 \<and> c = 0 then 0x0001 else 0) \<rparr>"

text \<open>
  A tile file with a hole block that marks every cell as a hole and a height block that
  carries the no-height flag and the tile-wide height 5; and the store loaded from it.
\<close>

definition holes_flat_file :: "float32 MapFile" where
  "holes_flat_file =
     blank_file
       \<lparr> read_FileHeader :=
           (read_FileHeader blank_file)
             \<lparr> mapMagic := MAP_MAGIC, versionMagic := MAP_VERSION_MAGIC,
               holesOffset := 40, heightMapOffset := 600 \<rparr>,
         read_holes := (\<lambda>_ _. (True, \<lambda>_ _. 0xFFFF)),
         read_HeightHeader :=
           (\<lambda>_. \<lparr> height_fourcc = MAP_HEIGHT_MAGIC, height_flags = MAP_HEIGHT_NO_HEIGHT,
                  height_gridHeight = Finite 5, height_gridMaxHeight = Finite 5 \<rparr>) \<rparr>"

definition holes_flat_tile :: "float32 GridMap" where
  "holes_flat_tile = snd (loadData binary32 (Some holes_flat_file) (GridMap_new binary32))"

text \<open>
  A tile with 16-bit heights (every raw sample 0, tile-wide height 7) whose every cell is
  marked as a hole.
\<close>

definition holed_uint16_tile :: "float32 GridMap" where
  "holed_uint16_tile =
     (GridMap_new binary32)
       \<lparr> m_gridHeight := Finite 7,
         m_gridIntHeightMultiplier := Finite 1,
         m_gridGetHeight := getHeightFromUint16_ptr,
         m_V9 := Some (Uint16Arr (replicate (129 * 129) 0)),
         m_V8 := Some (Uint16Arr (replicate (128 * 128) 0)),
         m_holes := (\<lambda>_ _. 0xFFFF) \<rparr>"

subsection \<open>The liquid query, in the words of the spec\<close>

text \<open>
  The spec describes \<^verbatim>\<open>getLiquidStatus\<close> in two steps: a chain of checks, each of which can
  reject the query with \<^verbatim>\<open>NoWater\<close>, and a classification by \<open>delta = liquidLevel - z\<close>.
  The two definitions below follow that description; \<open>liquid_checks\<close> yields the resolved
  entry and type, the liquid level and the ground level of a query that passes.
\<close>

datatype 'f liquid_check = Rejected | Passed "32 word" "8 word" 'f 'f

definition liquid_checks ::
  "'f float_ops \<Rightarrow> DBC \<Rightarrow> 'f GridMap \<Rightarrow> 'f \<Rightarrow> 'f \<Rightarrow> 'f \<Rightarrow> 8 word \<Rightarrow> 'f liquid_check option" where
  "liquid_checks fp dbc g x y z ReqLiquidType =
     (if m_liquidFlags g = None \<and> m_liquidGlobalFlags g = 0 then Some Rejected
      else do {
        cxi \<leftarrow> f_to_int fp (scaled fp MAP_RESOLUTION x);
        cyi \<leftarrow> f_to_int fp (scaled fp MAP_RESOLUTION y);
        let x_int = cxi AND 127;
        let y_int = cyi AND 127;
        let idx = drop_bit 3 x_int * 16 + drop_bit 3 y_int;
        type0 \<leftarrow> (case m_liquidFlags g of
                    Some liquidFlags \<Rightarrow> elem_at liquidFlags idx
                  | None \<Rightarrow> Some (m_liquidGlobalFlags g));
        entry0 \<leftarrow> (case m_liquidEntry g of
                     Some liquidEntry \<Rightarrow> map_option ucast (elem_at liquidEntry idx)
                   | None \<Rightarrow> Some (ucast (m_liquidGlobalEntry g)));
        (type, entry) \<leftarrow> resolveLiquid fp dbc g x y type0 entry0;
        let lx_int = x_int - uint (m_liquid_offY g);
        let ly_int = y_int - uint (m_liquid_offX g);
        if type = 0 then Some Rejected
        else if ReqLiquidType \<noteq> 0 \<and> ReqLiquidType AND type = 0 then Some Rejected
        else if lx_int < 0 \<or> lx_int \<ge> uint (m_liquid_height g) then Some Rejected
        else if ly_int < 0 \<or> ly_int \<ge> uint (m_liquid_width g) then Some Rejected
        else do {
          liquid_level \<leftarrow>
            (case m_liquid_map g of
               Some liquid_map \<Rightarrow> elem_at liquid_map (lx_int * uint (m_liquid_width g) + ly_int)
             | None \<Rightarrow> Some (m_liquidLevel g));
          ground_level \<leftarrow> getHeight fp g x y;
          if fless fp liquid_level ground_level \<or> fless fp z (fsub fp ground_level (fint fp 2))
          then Some Rejected
          else Some (Passed entry type liquid_level ground_level)
        }
      })"

definition classify_delta :: "'f float_ops \<Rightarrow> 'f \<Rightarrow> 'f \<Rightarrow> GridMapLiquidStatus" where
  "classify_delta fp delta collisionHeight =
     (if fless fp collisionHeight delta then LIQUID_MAP_UNDER_WATER
      else if fless fp (fint fp 0) delta then LIQUID_MAP_IN_WATER
      else if fless fp (fint fp (- 1)) delta then LIQUID_MAP_WATER_WALK
      else LIQUID_MAP_ABOVE_WATER)"

text \<open>The detail struct after the four assignments of the query.\<close>

definition store_data ::
  "32 word \<Rightarrow> 8 word \<Rightarrow> 'f \<Rightarrow> 'f \<Rightarrow> 'f GridMapLiquidData \<Rightarrow> 'f GridMapLiquidData" where
  "store_data e t l gl d = d\<lparr> entry := e, type_flags := ucast t, level := l, depth_level := gl \<rparr>"

text \<open>
  Empty metadata tables, and a flat tile at height 0 that is covered by water of level 10
  (tile-wide liquid flags 1, a liquid window over the whole tile, no per-cell grids).
\<close>

definition no_dbc :: DBC where
  "no_dbc = \<lparr> sLiquidTypeStore = (\<lambda>_. None), sAreaStore = (\<lambda>_. None),
              GetAreaEntryByAreaID = (\<lambda>_. None) \<rparr>"

definition water_tile :: "float32 GridMap" where
  "water_tile =
     (GridMap_new binary32)
       \<lparr> m_gridHeight := Finite 0, m_liquidGlobalFlags := 1, m_liquid_width := 128,
         m_liquid_height := 128, m_liquidLevel := Finite 10 \<rparr>"

text \<open>The same tile with water of level \<^verbatim>\<open>0.01f\<close>.\<close>

definition shallow_tile :: "float32 GridMap" where
  "shallow_tile = water_tile\<lparr> m_liquidLevel := round32 0.01 \<rparr>"

text \<open>The tile with water of level 10 and its ground just above 0, at \<open>1 / 2 ^ 30\<close>.\<close>

definition low_ground_tile :: "float32 GridMap" where
  "low_ground_tile = water_tile\<lparr> m_gridHeight := Finite (1 / 2 ^ 30) \<rparr>"

definition blank_data :: "float32 GridMapLiquidData" where
  "blank_data = \<lparr> type_flags = 0, entry = 0, level = Finite 0, depth_level = Finite 0 \<rparr>"

subsection \<open>Well-formed stores and tables\<close>






text \<open>
  What the loader establishes: every array has the length it was allocated with, and the
  height strategy goes with arrays of its element type.
\<close>

fun strategy_ok :: "HeightStrategy \<Rightarrow> 'f samples option \<Rightarrow> 'f samples option \<Rightarrow> bool" where
  "strategy_ok getHeightFromFlat_ptr p q = True"
| "strategy_ok getHeightFromFloat_ptr (Some (FloatArr v9)) (Some (FloatArr v8)) =
     (length v9 = 129 * 129 \<and> length v8 = 128 * 128)"
| "strategy_ok getHeightFromUint8_ptr (Some (Uint8Arr v9)) (Some (Uint8Arr v8)) =
     (length v9 = 129 * 129 \<and> length v8 = 128 * 128)"
| "strategy_ok getHeightFromUint16_ptr (Some (Uint16Arr v9)) (Some (Uint16Arr v8)) =
     (length v9 = 129 * 129 \<and> length v8 = 128 * 128)"
| "strategy_ok s p q = False"

fun has_length :: "'a list option \<Rightarrow> nat \<Rightarrow> bool" where
  "has_length None n = True"
| "has_length (Some a) n = (length a = n)"

definition wf_store :: "'f GridMap \<Rightarrow> bool" where
  "wf_store g =
     (strategy_ok (m_gridGetHeight g) (m_V9 g) (m_V8 g)
      \<and> has_length (m_area_map g) (16 * 16)
      \<and> has_length (m_liquidFlags g) (16 * 16)
      \<and> has_length (m_liquidEntry g) (16 * 16)
      \<and> has_length (m_liquid_map g) (unat (m_liquid_width g) * unat (m_liquid_height g)))"

text \<open>Every store in the cache is well-formed.\<close>

definition cache_ok :: "'f TerrainInfo \<Rightarrow> bool" where
  "cache_ok t = (\<forall>x y g. m_GridMaps t x y = Some g \<longrightarrow> wf_store g)"





section \<open>Properties\<close>

subsection \<open>Evaluating single-precision arithmetic\<close>

lemma halvings_numeral [simp]:
  "halvings (numeral k) x = (if x < 2 then 0 else 1 + halvings (pred_numeral k) (x / 2))"
  by (simp add: numeral_eq_Suc)

lemma doublings_numeral [simp]:
  "doublings (numeral k) x = (if 1 \<le> x then 0 else doublings (pred_numeral k) (2 * x) - 1)"
  by (simp add: numeral_eq_Suc)

lemma binary32_fields:
  "fadd binary32 = f32_add"
  "fsub binary32 = f32_sub"
  "fmul binary32 = f32_mul"
  "fdiv binary32 = f32_div"
  "fless binary32 = f32_less"
  "f_to_int binary32 = f32_to_int"
  by (simp_all add: binary32_def)

lemma binary32_fint: "fint binary32 i = round32 (real_of_int i)"
  by (simp add: binary32_def)

lemma binary32_SIZE_OF_GRIDS: "SIZE_OF_GRIDS binary32 = Finite (8738133 / 16384)"
  by (simp add: binary32_def round32_def exponent_def pow2_def round_half_even_def Let_def)

lemma binary32_INVALID_HEIGHT_VALUE: "INVALID_HEIGHT_VALUE binary32 = Finite (- 200000)"
  by (simp add: binary32_def round32_def exponent_def pow2_def round_half_even_def Let_def)

lemmas round32_eval =
  binary32_fields binary32_fint binary32_SIZE_OF_GRIDS binary32_INVALID_HEIGHT_VALUE f32_sub_def
  round32_def exponent_def pow2_def round_half_even_def Let_def c_int_def

text \<open>
  The rounding shows in the cell of a coordinate. For \<open>x = 525\<close> the quotient by the side
  length rounds to \<open>16515073 / 16777216\<close> and the scaled coordinate to 3970, which the
  exact quotient \<open>525 / 533.33333\<close> would leave just below; for \<open>x = 1600\<close> the scaled
  coordinate is 3712 and for \<open>x = 100\<close> the coordinate on the 16-cell grid is 509. The
  tile coordinate of 1600 is 29.
\<close>

lemma binary32_cells:
  "fdiv binary32 (Finite 525) (SIZE_OF_GRIDS binary32) = Finite (16515073 / 16777216)"
  "scaled binary32 MAP_RESOLUTION (Finite 525) = Finite 3970"
  "scaled binary32 MAP_RESOLUTION (Finite 1600) = Finite 3712"
  "scaled binary32 16 (Finite 100) = Finite 509"
  "f_to_int binary32 (scaled binary32 MAP_RESOLUTION (Finite 525)) = Some 3970"
  "f_to_int binary32 (scaled binary32 MAP_RESOLUTION (Finite 1600)) = Some 3712"
  "f_to_int binary32 (scaled binary32 16 (Finite 100)) = Some 509"
  "f_to_int binary32 (grid_coord binary32 (Finite 1600)) = Some 29"
  by (simp_all add: scaled_def grid_coord_def MAP_RESOLUTION_def round32_eval)









subsection \<open>Reference counts\<close>

lemma upd2_same [simp]: "upd2 a x y v x y = v"
  by (simp add: upd2_def)

lemma upd2_upd2 [simp]: "upd2 (upd2 a x y v) x y w = upd2 a x y w"
  by (simp add: upd2_def)

lemma upd2_id [simp]: "upd2 a x y (a x y) = a"
  by (simp add: upd2_def)

lemma set_ref_set_ref [simp]: "set_ref x y w (set_ref x y v t) = set_ref x y w t"
  by (simp add: set_ref_def)

lemma set_ref_id: "m_GridRef t x y = v \<Longrightarrow> set_ref x y v t = t"
  by (auto simp add: set_ref_def)

lemma GridRef_set_ref [simp]: "m_GridRef (set_ref x y v t) x y = v"
  by (simp add: set_ref_def)

lemma RefGrid_set_ref:
  "x < MAX_NUMBER_OF_GRIDS \<Longrightarrow> y < MAX_NUMBER_OF_GRIDS \<Longrightarrow>
   RefGrid x y t = Some (sint (m_GridRef t x y + 1), set_ref x y (m_GridRef t x y + 1) t)"
  by (simp add: RefGrid_def set_ref_def Let_def)

lemma UnrefGrid_set_ref:
  "x < MAX_NUMBER_OF_GRIDS \<Longrightarrow> y < MAX_NUMBER_OF_GRIDS \<Longrightarrow>
   UnrefGrid x y t =
     (if 0 <s m_GridRef t x y
      then Some (sint (m_GridRef t x y - 1), set_ref x y (m_GridRef t x y - 1) t)
      else Some (0, t))"
  by (simp add: UnrefGrid_def set_ref_def Let_def)

lemma RefGrid_times_eq:
  "x < MAX_NUMBER_OF_GRIDS \<Longrightarrow> y < MAX_NUMBER_OF_GRIDS \<Longrightarrow>
   RefGrid_times n x y t = Some (set_ref x y (m_GridRef t x y + of_nat n) t)"
proof (induction n arbitrary: t)
  case 0
  then show ?case by (simp add: set_ref_id)
next
  case (Suc n)
  then show ?case by (simp add: RefGrid_set_ref ac_simps)
qed

lemma sint_of_nat_16: "n \<le> 32767 \<Longrightarrow> sint (of_nat n :: 16 word) = int n"
proof -
  assume "n \<le> 32767"
  then have "signed_take_bit 15 (int n) = int n"
    by (intro signed_take_bit_int_eq_self) auto
  then show ?thesis by (simp add: signed_of_nat)
qed

lemma UnrefGrid_times_eq:
  "x < MAX_NUMBER_OF_GRIDS \<Longrightarrow> y < MAX_NUMBER_OF_GRIDS \<Longrightarrow> n \<le> 32767 \<Longrightarrow>
   m_GridRef t x y = of_nat n \<Longrightarrow>
   UnrefGrid_times n x y t = Some (set_ref x y 0 t)"
proof (induction n arbitrary: t)
  case 0
  then show ?case by (simp add: set_ref_id)
next
  case (Suc n)
  have pos: "0 <s (of_nat (Suc n) :: 16 word)"
    using sint_of_nat_16 [of "Suc n"] Suc.prems(3) by (simp add: word_sless_alt del: of_nat_Suc)
  have "UnrefGrid x y t = Some (sint (of_nat (Suc n) - 1 :: 16 word), set_ref x y (of_nat n) t)"
    using Suc.prems pos by (simp add: UnrefGrid_set_ref del: of_nat_Suc) simp
  moreover have "UnrefGrid_times n x y (set_ref x y (of_nat n) t) = Some (set_ref x y 0 (set_ref x y (of_nat n) t))"
    using Suc.prems by (intro Suc.IH) auto
  ultimately show ?case by simp
qed

lemma sint_succ_16: "sint (c :: 16 word) < 32767 \<Longrightarrow> sint (c + 1) = sint c + 1"
proof -
  assume a: "sint c < 32767"
  have lo: "- 32768 \<le> sint c" using sint_ge [of c] by simp
  have "sint (c + 1) = signed_take_bit 15 (sint c + 1)"
    by (simp add: sint_word_ariths)
  also have "\<dots> = sint c + 1"
    by (rule signed_take_bit_int_eq_self) (use a lo in auto)
  finally show ?thesis .
qed

lemma sint_pred_16: "0 < sint (c :: 16 word) \<Longrightarrow> sint (c - 1) = sint c - 1"
proof -
  assume a: "0 < sint c"
  have hi: "sint c < 32768" using sint_lt [of c] by simp
  have "sint (c - 1) = signed_take_bit 15 (sint c - 1)"
    by (simp add: sint_word_ariths)
  also have "\<dots> = sint c - 1"
    by (rule signed_take_bit_int_eq_self) (use a hi in auto)
  finally show ?thesis .
qed

text \<open>
  Claim C8, as the code has it. The counter of a slot is an \<^verbatim>\<open>int16\<close>. Below its largest
  value 32767, \<^verbatim>\<open>RefGrid\<close> adds one and returns the new count. \<^verbatim>\<open>UnrefGrid\<close> takes one off
  only when the count is positive, and otherwise returns 0 and changes nothing; so a
  count that is not negative stays so under \<^verbatim>\<open>UnrefGrid\<close>. From a count of 0, \<open>N\<close> calls of
  \<^verbatim>\<open>RefGrid\<close> followed by \<open>N\<close> calls of \<^verbatim>\<open>UnrefGrid\<close> give 0 again, for every \<open>N\<close> up to
  32767.
\<close>

theorem refcount_ref_unref:
  assumes "x < MAX_NUMBER_OF_GRIDS" and "y < MAX_NUMBER_OF_GRIDS"
  shows "(refcount x y t < 32767 \<longrightarrow>
            (\<exists>t'. RefGrid x y t = Some (refcount x y t + 1, t') \<and> refcount x y t' = refcount x y t + 1))
         \<and> (0 < refcount x y t \<longrightarrow>
            (\<exists>t'. UnrefGrid x y t = Some (refcount x y t - 1, t') \<and> refcount x y t' = refcount x y t - 1))
         \<and> (refcount x y t \<le> 0 \<longrightarrow> UnrefGrid x y t = Some (0, t))
         \<and> (0 \<le> refcount x y t \<longrightarrow>
            (\<exists>r t'. UnrefGrid x y t = Some (r, t') \<and> 0 \<le> r \<and> 0 \<le> refcount x y t'))
         \<and> (refcount x y t = 0 \<and> N \<le> 32767 \<longrightarrow>
            (\<exists>t1 t2. RefGrid_times N x y t = Some t1 \<and> refcount x y t1 = int N
                \<and> UnrefGrid_times N x y t1 = Some t2 \<and> refcount x y t2 = 0))"
proof (intro conjI impI)
  assume "refcount x y t < 32767"
  then show "\<exists>t'. RefGrid x y t = Some (refcount x y t + 1, t') \<and> refcount x y t' = refcount x y t + 1"
    using assms by (simp add: RefGrid_set_ref refcount_def sint_succ_16)
next
  assume "0 < refcount x y t"
  then show "\<exists>t'. UnrefGrid x y t = Some (refcount x y t - 1, t') \<and> refcount x y t' = refcount x y t - 1"
    using assms by (simp add: UnrefGrid_set_ref refcount_def sint_pred_16 word_sless_alt)
next
  assume "refcount x y t \<le> 0"
  then show "UnrefGrid x y t = Some (0, t)"
    using assms by (simp add: UnrefGrid_set_ref refcount_def word_sless_alt)
next
  assume "0 \<le> refcount x y t"
  then show "\<exists>r t'. UnrefGrid x y t = Some (r, t') \<and> 0 \<le> r \<and> 0 \<le> refcount x y t'"
    using assms by (simp add: UnrefGrid_set_ref refcount_def sint_pred_16 word_sless_alt)
next
  assume a: "refcount x y t = 0 \<and> N \<le> 32767"
  then have z: "m_GridRef t x y = 0" by (simp add: refcount_def signed_eq_0_iff)
  let ?t1 = "set_ref x y (of_nat N) t"
  have r: "RefGrid_times N x y t = Some ?t1"
    using assms z by (simp add: RefGrid_times_eq)
  have c: "refcount x y ?t1 = int N"
    using a by (simp add: refcount_def sint_of_nat_16)
  have u: "UnrefGrid_times N x y ?t1 = Some (set_ref x y 0 ?t1)"
    using assms a by (intro UnrefGrid_times_eq) auto
  have "refcount x y (set_ref x y 0 ?t1) = 0" by (simp add: refcount_def)
  with r c u show "\<exists>t1 t2. RefGrid_times N x y t = Some t1 \<and> refcount x y t1 = int N
                \<and> UnrefGrid_times N x y t1 = Some t2 \<and> refcount x y t2 = 0"
    by blast
qed

lemma refcount_example [simp]: "refcount x y example_terrain = 0"
  by (simp add: refcount_def example_terrain_def TerrainInfo_new_def)

theorem refcount_ref_unref_witness:
  "(3::nat) < MAX_NUMBER_OF_GRIDS \<and> (5::nat) < MAX_NUMBER_OF_GRIDS
   \<and> refcount 3 5 example_terrain < 32767
   \<and> map_option fst (RefGrid 3 5 example_terrain) = Some 1
   \<and> UnrefGrid 3 5 example_terrain = Some (0, example_terrain)
   \<and> map_option (refcount 3 5) (RefGrid_times 2 3 5 example_terrain) = Some 2"
proof -
  have h: "(3::nat) < MAX_NUMBER_OF_GRIDS" "(5::nat) < MAX_NUMBER_OF_GRIDS"
    by (simp_all add: MAX_NUMBER_OF_GRIDS_def)
  show ?thesis
    using refcount_ref_unref [OF h, of example_terrain 2] h by auto
qed

text \<open>
  The count can become negative: the 32768th \<^verbatim>\<open>RefGrid\<close> on a slot of a fresh cache wraps
  the \<^verbatim>\<open>int16\<close> around.
\<close>

theorem refcount_wraps_negative:
  "map_option (refcount 0 0) (RefGrid_times 32768 0 0 example_terrain) = Some (- 32768)"
proof -
  have "RefGrid_times 32768 0 0 example_terrain =
          Some (set_ref 0 0 (m_GridRef example_terrain 0 0 + of_nat 32768) example_terrain)"
    by (rule RefGrid_times_eq) (simp_all add: MAX_NUMBER_OF_GRIDS_def)
  then show ?thesis
    by (simp add: refcount_def example_terrain_def TerrainInfo_new_def)
qed

subsection \<open>Loading a tile file\<close>

lemma magic_values:
  "MAP_MAGIC = 0x5350414D" "MAP_VERSION_MAGIC = 0x342E3173" "MAP_AREA_MAGIC = 0x41455241"
  "MAP_HEIGHT_MAGIC = 0x5447484D" "MAP_LIQUID_MAGIC = 0x51494C4D"
  by (simp_all add: MAP_MAGIC_def MAP_VERSION_MAGIC_def MAP_AREA_MAGIC_def MAP_HEIGHT_MAGIC_def
      MAP_LIQUID_MAGIC_def magic_word_def)

lemma unloadData_new: "unloadData (GridMap_new fp) = GridMap_new fp"
  by (simp add: unloadData_def GridMap_new_def)

text \<open>
  Claim C9. When the file cannot be opened, \<^verbatim>\<open>loadData\<close> returns \<^verbatim>\<open>true\<close> and leaves an
  empty store: no area map, no height arrays, no liquid arrays, the flat height strategy;
  on a store fresh from the constructor, the way the cache calls it, the result is that
  fresh store itself. When the file opens and its root magic or its version tag is not the
  fixed constant, \<^verbatim>\<open>loadData\<close> returns \<^verbatim>\<open>false\<close>.
\<close>

theorem loadData_missing_or_incompatible:
  "loadData fp None g = (True, unloadData g)
   \<and> m_area_map (snd (loadData fp None g)) = None
   \<and> m_V9 (snd (loadData fp None g)) = None
   \<and> m_V8 (snd (loadData fp None g)) = None
   \<and> m_liquidEntry (snd (loadData fp None g)) = None
   \<and> m_liquidFlags (snd (loadData fp None g)) = None
   \<and> m_liquid_map (snd (loadData fp None g)) = None
   \<and> m_gridGetHeight (snd (loadData fp None g)) = getHeightFromFlat_ptr
   \<and> loadData fp None (GridMap_new fp) = (True, GridMap_new fp)
   \<and> (mapMagic (read_FileHeader f) \<noteq> MAP_MAGIC \<or> versionMagic (read_FileHeader f) \<noteq> MAP_VERSION_MAGIC
        \<longrightarrow> fst (loadData fp (Some f) g) = False)"
  by (auto simp add: loadData_def unloadData_def GridMap_new_def Let_def)

theorem loadData_missing_or_incompatible_witness:
  "mapMagic (read_FileHeader blank_file) \<noteq> MAP_MAGIC
   \<and> fst (loadData binary32 (Some blank_file) (GridMap_new binary32)) = False
   \<and> loadData binary32 None (GridMap_new binary32) = (True, GridMap_new binary32)"
  using loadData_missing_or_incompatible [of binary32 "GridMap_new binary32" blank_file]
  by (simp add: blank_file_def magic_values unloadData_new)

lemma loadAreaData_bad:
  "area_fourcc (read_AreaHeader f off) \<noteq> MAP_AREA_MAGIC \<Longrightarrow> loadAreaData f off g = (False, g)"
  by (simp add: loadAreaData_def Let_def)

lemma loadHeightData_bad:
  "height_fourcc (read_HeightHeader f off) \<noteq> MAP_HEIGHT_MAGIC \<Longrightarrow> loadHeightData fp f off g = (False, g)"
  by (simp add: loadHeightData_def Let_def)

lemma loadGridMapLiquidData_bad:
  "liquid_fourcc (read_LiquidHeader f off) \<noteq> MAP_LIQUID_MAGIC \<Longrightarrow> loadGridMapLiquidData f off g = (False, g)"
  by (simp add: loadGridMapLiquidData_def Let_def)

lemma loadAreaData_good:
  "area_fourcc (read_AreaHeader f off) = MAP_AREA_MAGIC \<Longrightarrow> fst (loadAreaData f off g)"
  by (simp add: loadAreaData_def Let_def)

lemma loadHeightData_good:
  "height_fourcc (read_HeightHeader f off) = MAP_HEIGHT_MAGIC \<Longrightarrow> fst (loadHeightData fp f off g)"
  by (simp add: loadHeightData_def Let_def)

lemma loadData_stages:
  assumes "root_ok f"
    and a: "stage_area f (unloadData g) = (okA, gA)"
    and h: "stage_holes f gA = (okH, gH)"
    and v: "stage_height fp f gH = (okV, gV)"
    and l: "stage_liquid f gV = (okL, gL)"
  shows "loadData fp (Some f) g =
     (if \<not> okA then (False, gA)
      else if \<not> okH then (False, gH)
      else if \<not> okV then (False, gV)
      else (okL, gL))"
proof -
  have m: "mapMagic (read_FileHeader f) = MAP_MAGIC" "versionMagic (read_FileHeader f) = MAP_VERSION_MAGIC"
    using assms(1) by (simp_all add: root_ok_def)
  show ?thesis
    unfolding loadData_def Let_def
    unfolding stage_area_def [symmetric] stage_holes_def [symmetric]
      stage_height_def [symmetric] stage_liquid_def [symmetric]
    by (cases okA; cases okH; cases okV; cases okL) (simp_all add: m a h v l)
qed

lemma stage_area_frame:
  "m_V9 (snd (stage_area f g)) = m_V9 g"
  "m_V8 (snd (stage_area f g)) = m_V8 g"
  "m_gridGetHeight (snd (stage_area f g)) = m_gridGetHeight g"
  "m_liquidEntry (snd (stage_area f g)) = m_liquidEntry g"
  "m_liquidFlags (snd (stage_area f g)) = m_liquidFlags g"
  "m_liquid_map (snd (stage_area f g)) = m_liquid_map g"
  by (simp_all add: stage_area_def loadAreaData_def Let_def)

lemma stage_holes_frame:
  "m_area_map (snd (stage_holes f g)) = m_area_map g"
  "m_V9 (snd (stage_holes f g)) = m_V9 g"
  "m_V8 (snd (stage_holes f g)) = m_V8 g"
  "m_gridGetHeight (snd (stage_holes f g)) = m_gridGetHeight g"
  "m_liquidEntry (snd (stage_holes f g)) = m_liquidEntry g"
  "m_liquidFlags (snd (stage_holes f g)) = m_liquidFlags g"
  "m_liquid_map (snd (stage_holes f g)) = m_liquid_map g"
  by (simp_all add: stage_holes_def loadHolesData_def Let_def split: prod.splits)

lemma stage_height_frame:
  "m_area_map (snd (stage_height fp f g)) = m_area_map g"
  "m_liquidEntry (snd (stage_height fp f g)) = m_liquidEntry g"
  "m_liquidFlags (snd (stage_height fp f g)) = m_liquidFlags g"
  "m_liquid_map (snd (stage_height fp f g)) = m_liquid_map g"
  by (simp_all add: stage_height_def loadHeightData_def Let_def)

lemma stage_area_bad: "\<not> area_ok f \<Longrightarrow> stage_area f g = (False, g)"
  by (simp add: area_ok_def stage_area_def loadAreaData_def Let_def)

lemma stage_area_good: "area_ok f \<Longrightarrow> fst (stage_area f g)"
  by (auto simp add: area_ok_def stage_area_def loadAreaData_def Let_def)

lemma stage_height_bad: "\<not> height_ok f \<Longrightarrow> stage_height fp f g = (False, g)"
  by (simp add: height_ok_def stage_height_def loadHeightData_def Let_def)

lemma stage_height_good: "height_ok f \<Longrightarrow> fst (stage_height fp f g)"
  by (auto simp add: height_ok_def stage_height_def loadHeightData_def Let_def)

lemma stage_liquid_bad: "\<not> liquid_ok f \<Longrightarrow> stage_liquid f g = (False, g)"
  by (simp add: liquid_ok_def stage_liquid_def loadGridMapLiquidData_def Let_def)

lemma unloadData_fields:
  "m_area_map (unloadData g) = None"
  "m_V9 (unloadData g) = None"
  "m_V8 (unloadData g) = None"
  "m_gridGetHeight (unloadData g) = getHeightFromFlat_ptr"
  "m_liquidEntry (unloadData g) = None"
  "m_liquidFlags (unloadData g) = None"
  "m_liquid_map (unloadData g) = None"
  by (simp_all add: unloadData_def)

lemma loadData_area_bad:
  assumes "root_ok f" "\<not> area_ok f"
  shows "loadData fp (Some f) g = (False, unloadData g)"
proof -
  obtain okH gH where h: "stage_holes f (unloadData g) = (okH, gH)" by force
  obtain okV gV where v: "stage_height fp f gH = (okV, gV)" by force
  obtain okL gL where l: "stage_liquid f gV = (okL, gL)" by force
  show ?thesis
    using loadData_stages [OF assms(1) stage_area_bad [OF assms(2)] h v l] by simp
qed

lemma without_height_liquid_stages:
  "root_ok (without_height_liquid f) = root_ok f"
  "stage_area (without_height_liquid f) g = stage_area f g"
  "stage_holes (without_height_liquid f) g = stage_holes f g"
  "stage_height fp (without_height_liquid f) g = (True, g)"
  "stage_liquid (without_height_liquid f) g = (True, g)"
  by (simp_all add: without_height_liquid_def root_ok_def stage_area_def stage_holes_def
      stage_height_def stage_liquid_def loadAreaData_def loadHolesData_def Let_def)

lemma without_liquid_stages:
  "root_ok (without_liquid f) = root_ok f"
  "stage_area (without_liquid f) g = stage_area f g"
  "stage_holes (without_liquid f) g = stage_holes f g"
  "stage_height fp (without_liquid f) g = stage_height fp f g"
  "stage_liquid (without_liquid f) g = (True, g)"
  by (simp_all add: without_liquid_def root_ok_def stage_area_def stage_holes_def
      stage_height_def stage_liquid_def loadAreaData_def loadHolesData_def loadHeightData_def Let_def)

lemma loadData_height_bad:
  assumes "root_ok f" "area_ok f" "\<not> height_ok f"
  shows "fst (loadData fp (Some f) g) = False"
    and "snd (loadData fp (Some f) g) = snd (loadData fp (Some (without_height_liquid f)) g)"
    and "m_area_map (snd (loadData fp (Some f) g)) = m_area_map (snd (stage_area f (unloadData g)))"
    and "m_V9 (snd (loadData fp (Some f) g)) = None"
    and "m_V8 (snd (loadData fp (Some f) g)) = None"
    and "m_gridGetHeight (snd (loadData fp (Some f) g)) = getHeightFromFlat_ptr"
    and "m_liquidEntry (snd (loadData fp (Some f) g)) = None"
    and "m_liquidFlags (snd (loadData fp (Some f) g)) = None"
    and "m_liquid_map (snd (loadData fp (Some f) g)) = None"
proof -
  obtain okA gA where a: "stage_area f (unloadData g) = (okA, gA)" by force
  obtain okH gH where h: "stage_holes f gA = (okH, gH)" by force
  obtain okL gL where l: "stage_liquid f gH = (okL, gL)" by force
  have okA: okA using stage_area_good [OF assms(2), of "unloadData g"] a by simp
  have e: "loadData fp (Some f) g = (False, gH)"
    using loadData_stages [OF assms(1) a h stage_height_bad [OF assms(3)] l] okA by simp
  have r': "root_ok (without_height_liquid f)"
    using assms(1) by (simp add: without_height_liquid_stages)
  have e': "loadData fp (Some (without_height_liquid f)) g = (okH, gH)"
    using loadData_stages [OF r', of g okA gA okH gH fp True gH True gH] a h okA
    by (simp add: without_height_liquid_stages)
  have gA: "gA = snd (stage_area f (unloadData g))" using a by simp
  have gH: "gH = snd (stage_holes f gA)" using h by simp
  show "fst (loadData fp (Some f) g) = False" using e by simp
  show "snd (loadData fp (Some f) g) = snd (loadData fp (Some (without_height_liquid f)) g)"
    using e e' by simp
  show "m_area_map (snd (loadData fp (Some f) g)) = m_area_map (snd (stage_area f (unloadData g)))"
    by (simp add: e gH gA stage_holes_frame)
  show "m_V9 (snd (loadData fp (Some f) g)) = None"
    by (simp add: e gH gA stage_holes_frame stage_area_frame unloadData_fields)
  show "m_V8 (snd (loadData fp (Some f) g)) = None"
    by (simp add: e gH gA stage_holes_frame stage_area_frame unloadData_fields)
  show "m_gridGetHeight (snd (loadData fp (Some f) g)) = getHeightFromFlat_ptr"
    by (simp add: e gH gA stage_holes_frame stage_area_frame unloadData_fields)
  show "m_liquidEntry (snd (loadData fp (Some f) g)) = None"
    by (simp add: e gH gA stage_holes_frame stage_area_frame unloadData_fields)
  show "m_liquidFlags (snd (loadData fp (Some f) g)) = None"
    by (simp add: e gH gA stage_holes_frame stage_area_frame unloadData_fields)
  show "m_liquid_map (snd (loadData fp (Some f) g)) = None"
    by (simp add: e gH gA stage_holes_frame stage_area_frame unloadData_fields)
qed

lemma loadData_liquid_bad:
  assumes "root_ok f" "area_ok f" "height_ok f" "\<not> liquid_ok f"
  shows "fst (loadData fp (Some f) g) = False"
    and "snd (loadData fp (Some f) g) = snd (loadData fp (Some (without_liquid f)) g)"
    and "m_liquidEntry (snd (loadData fp (Some f) g)) = None"
    and "m_liquidFlags (snd (loadData fp (Some f) g)) = None"
    and "m_liquid_map (snd (loadData fp (Some f) g)) = None"
proof -
  obtain okA gA where a: "stage_area f (unloadData g) = (okA, gA)" by force
  obtain okH gH where h: "stage_holes f gA = (okH, gH)" by force
  obtain okV gV where v: "stage_height fp f gH = (okV, gV)" by force
  have okA: okA using stage_area_good [OF assms(2), of "unloadData g"] a by simp
  have okV: okV using stage_height_good [OF assms(3), of fp gH] v by simp
  have e: "loadData fp (Some f) g = (False, if okH then gV else gH)"
    using loadData_stages [OF assms(1) a h v stage_liquid_bad [OF assms(4)]] okA okV by simp
  have r': "root_ok (without_liquid f)"
    using assms(1) by (simp add: without_liquid_stages)
  have e': "loadData fp (Some (without_liquid f)) g = (okH, if okH then gV else gH)"
    using loadData_stages [OF r', of g okA gA okH gH fp okV gV True gV] a h v okA okV
    by (simp add: without_liquid_stages)
  have gA: "gA = snd (stage_area f (unloadData g))" using a by simp
  have gH: "gH = snd (stage_holes f gA)" using h by simp
  have gV: "gV = snd (stage_height fp f gH)" using v by simp
  show "fst (loadData fp (Some f) g) = False" using e by simp
  show "snd (loadData fp (Some f) g) = snd (loadData fp (Some (without_liquid f)) g)"
    using e e' by simp
  show "m_liquidEntry (snd (loadData fp (Some f) g)) = None"
    by (simp add: e gV gH gA stage_height_frame stage_holes_frame stage_area_frame unloadData_fields)
  show "m_liquidFlags (snd (loadData fp (Some f) g)) = None"
    by (simp add: e gV gH gA stage_height_frame stage_holes_frame stage_area_frame unloadData_fields)
  show "m_liquid_map (snd (loadData fp (Some f) g)) = None"
    by (simp add: e gV gH gA stage_height_frame stage_holes_frame stage_area_frame unloadData_fields)
qed

lemma stage_area_populates:
  "areaMapOffset (read_FileHeader f) \<noteq> 0 \<Longrightarrow>
   area_fourcc (read_AreaHeader f (areaMapOffset (read_FileHeader f))) = MAP_AREA_MAGIC \<Longrightarrow>
   area_flags (read_AreaHeader f (areaMapOffset (read_FileHeader f))) AND MAP_AREA_NO_AREA = 0 \<Longrightarrow>
   m_area_map (snd (stage_area f g)) =
     Some (fread_array (16 * 16) (read_area_map f (areaMapOffset (read_FileHeader f))))"
  by (simp add: stage_area_def loadAreaData_def Let_def)

text \<open>
  Claim C2, as the code has it. For a file with a good root header in which the area, the
  height or the liquid block carries a wrong tag, \<^verbatim>\<open>loadData\<close> returns \<^verbatim>\<open>false\<close>. Nothing
  of the block with the wrong tag and of the blocks after it (the order is area, holes,
  height, liquid) is in the store. What the earlier blocks put there stays: the store is
  the one that the same file without the failing and the later blocks loads; with a
  wrong height tag the area map read before is still there.
\<close>

theorem loadData_bad_subblock_tag:
  assumes "root_ok f"
  shows "(\<not> area_ok f \<longrightarrow> loadData fp (Some f) g = (False, unloadData g))
     \<and> (area_ok f \<and> \<not> height_ok f \<longrightarrow>
          fst (loadData fp (Some f) g) = False
          \<and> snd (loadData fp (Some f) g) = snd (loadData fp (Some (without_height_liquid f)) g)
          \<and> m_V9 (snd (loadData fp (Some f) g)) = None
          \<and> m_V8 (snd (loadData fp (Some f) g)) = None
          \<and> m_gridGetHeight (snd (loadData fp (Some f) g)) = getHeightFromFlat_ptr
          \<and> m_liquidEntry (snd (loadData fp (Some f) g)) = None
          \<and> m_liquidFlags (snd (loadData fp (Some f) g)) = None
          \<and> m_liquid_map (snd (loadData fp (Some f) g)) = None
          \<and> (areaMapOffset (read_FileHeader f) \<noteq> 0
               \<and> area_flags (read_AreaHeader f (areaMapOffset (read_FileHeader f))) AND MAP_AREA_NO_AREA = 0
              \<longrightarrow> m_area_map (snd (loadData fp (Some f) g)) =
                    Some (fread_array (16 * 16) (read_area_map f (areaMapOffset (read_FileHeader f))))))
     \<and> (area_ok f \<and> height_ok f \<and> \<not> liquid_ok f \<longrightarrow>
          fst (loadData fp (Some f) g) = False
          \<and> snd (loadData fp (Some f) g) = snd (loadData fp (Some (without_liquid f)) g)
          \<and> m_liquidEntry (snd (loadData fp (Some f) g)) = None
          \<and> m_liquidFlags (snd (loadData fp (Some f) g)) = None
          \<and> m_liquid_map (snd (loadData fp (Some f) g)) = None)"
proof -
  have A: "\<not> area_ok f \<longrightarrow> loadData fp (Some f) g = (False, unloadData g)"
    using assms by (simp add: loadData_area_bad)
  have H: "fst (loadData fp (Some f) g) = False
          \<and> snd (loadData fp (Some f) g) = snd (loadData fp (Some (without_height_liquid f)) g)
          \<and> m_V9 (snd (loadData fp (Some f) g)) = None
          \<and> m_V8 (snd (loadData fp (Some f) g)) = None
          \<and> m_gridGetHeight (snd (loadData fp (Some f) g)) = getHeightFromFlat_ptr
          \<and> m_liquidEntry (snd (loadData fp (Some f) g)) = None
          \<and> m_liquidFlags (snd (loadData fp (Some f) g)) = None
          \<and> m_liquid_map (snd (loadData fp (Some f) g)) = None"
    if b: "area_ok f \<and> \<not> height_ok f"
  proof -
    have b1: "area_ok f" and b2: "\<not> height_ok f" using b by simp_all
    note hb = loadData_height_bad [OF assms b1 b2, of fp g]
    show ?thesis
      by (intro conjI) (rule hb)+
  qed
  have P: "m_area_map (snd (loadData fp (Some f) g)) =
      Some (fread_array (16 * 16) (read_area_map f (areaMapOffset (read_FileHeader f))))"
    if b: "area_ok f \<and> \<not> height_ok f"
      and a: "areaMapOffset (read_FileHeader f) \<noteq> 0
       \<and> area_flags (read_AreaHeader f (areaMapOffset (read_FileHeader f))) AND MAP_AREA_NO_AREA = 0"
  proof -
    have b1: "area_ok f" and b2: "\<not> height_ok f" using b by simp_all
    have m: "area_fourcc (read_AreaHeader f (areaMapOffset (read_FileHeader f))) = MAP_AREA_MAGIC"
      using a b1 by (simp add: area_ok_def)
    show ?thesis
      using a m by (simp add: loadData_height_bad(3) [OF assms b1 b2] stage_area_populates)
  qed
  have L: "fst (loadData fp (Some f) g) = False
          \<and> snd (loadData fp (Some f) g) = snd (loadData fp (Some (without_liquid f)) g)
          \<and> m_liquidEntry (snd (loadData fp (Some f) g)) = None
          \<and> m_liquidFlags (snd (loadData fp (Some f) g)) = None
          \<and> m_liquid_map (snd (loadData fp (Some f) g)) = None"
    if b: "area_ok f \<and> height_ok f \<and> \<not> liquid_ok f"
  proof -
    have b1: "area_ok f" and b2: "height_ok f" and b3: "\<not> liquid_ok f" using b by simp_all
    note lb = loadData_liquid_bad [OF assms b1 b2 b3, of fp g]
    show ?thesis
      by (intro conjI) (rule lb)+
  qed
  show ?thesis
    using A H P L by blast
qed

lemma bad_height_file_props:
  "root_ok bad_height_file" "area_ok bad_height_file" "\<not> height_ok bad_height_file"
  "areaMapOffset (read_FileHeader bad_height_file) \<noteq> 0"
  "area_flags (read_AreaHeader bad_height_file (areaMapOffset (read_FileHeader bad_height_file)))
     AND MAP_AREA_NO_AREA = 0"
  by (simp_all add: root_ok_def area_ok_def height_ok_def bad_height_file_def blank_file_def
      magic_values)

theorem loadData_bad_subblock_tag_witness:
  "root_ok bad_height_file \<and> area_ok bad_height_file \<and> \<not> height_ok bad_height_file
   \<and> fst (loadData binary32 (Some bad_height_file) (GridMap_new binary32)) = False
   \<and> m_V9 (snd (loadData binary32 (Some bad_height_file) (GridMap_new binary32))) = None
   \<and> m_area_map (snd (loadData binary32 (Some bad_height_file) (GridMap_new binary32))) =
       Some (fread_array (16 * 16)
               (read_area_map bad_height_file (areaMapOffset (read_FileHeader bad_height_file))))"
  using loadData_bad_subblock_tag [of bad_height_file binary32 "GridMap_new binary32"] bad_height_file_props
  by blast

text \<open>
  A failed load can leave a sub-block populated: here the area block has parsed, the height
  tag is wrong, \<^verbatim>\<open>loadData\<close> returns \<^verbatim>\<open>false\<close> and the area map is in the store.
\<close>

theorem loadData_keeps_partial_state:
  "root_ok bad_height_file
   \<and> areaMapOffset (read_FileHeader bad_height_file) \<noteq> 0
   \<and> heightMapOffset (read_FileHeader bad_height_file) \<noteq> 0
   \<and> height_fourcc (read_HeightHeader bad_height_file (heightMapOffset (read_FileHeader bad_height_file)))
        \<noteq> MAP_HEIGHT_MAGIC
   \<and> fst (loadData binary32 (Some bad_height_file) (GridMap_new binary32)) = False
   \<and> m_area_map (snd (loadData binary32 (Some bad_height_file) (GridMap_new binary32))) \<noteq> None"
  by (simp add: loadData_def loadAreaData_def loadHeightData_def root_ok_def Let_def
      bad_height_file_def blank_file_def magic_values MAP_AREA_NO_AREA_def)

subsection \<open>The periodic clean-up\<close>

lemma upd2_apply: "upd2 a x y v x' y' = (if x' = x \<and> y' = y then v else a x' y')"
  by (simp add: upd2_def)

lemma clean_view_idem [simp]: "clean_view (clean_view v) = clean_view v"
  by (cases v) (simp add: clean_view_def)

lemma cleanUpSlot_mapId [simp]: "m_mapId (cleanUpSlot x y t) = m_mapId t"
  by (simp add: cleanUpSlot_def Let_def)

lemma cleanUpSlot_timer [simp]: "i_timer (cleanUpSlot x y t) = i_timer t"
  by (simp add: cleanUpSlot_def Let_def)

lemma slot_view_cleanUpSlot:
  "slot_view x' y' (cleanUpSlot x y t) =
     (if x' = x \<and> y' = y then clean_view (slot_view x' y' t) else slot_view x' y' t)"
  by (simp add: slot_view_def cleanUpSlot_def clean_view_def Let_def upd2_apply IsTileLoaded_def
      IsMMapIsLoaded_def vmap_unloadMap_def mmap_unloadMap_def)

lemma slot_view_row:
  "slot_view x' y' (fold (\<lambda>x. cleanUpSlot x y) xs t) =
     (if x' \<in> set xs \<and> y' = y then clean_view (slot_view x' y' t) else slot_view x' y' t)"
  by (induction xs arbitrary: t) (simp_all add: slot_view_cleanUpSlot)

lemma slot_view_rows:
  "slot_view x' y' (fold (\<lambda>y. fold (\<lambda>x. cleanUpSlot x y) xs) ys t) =
     (if x' \<in> set xs \<and> y' \<in> set ys then clean_view (slot_view x' y' t) else slot_view x' y' t)"
  by (induction ys arbitrary: t) (auto simp add: slot_view_row)

lemma slot_view_timer [simp]: "slot_view x y (t\<lparr> i_timer := tm \<rparr>) = slot_view x y t"
  by (simp add: slot_view_def)

lemma mapId_row [simp]: "m_mapId (fold (\<lambda>x. cleanUpSlot x y) xs t) = m_mapId t"
  by (induction xs arbitrary: t) simp_all

lemma mapId_rows [simp]: "m_mapId (fold (\<lambda>y. fold (\<lambda>x. cleanUpSlot x y) xs) ys t) = m_mapId t"
  by (induction ys arbitrary: t) simp_all

lemma CleanUpGrids_mapId [simp]: "m_mapId (CleanUpGrids diff t) = m_mapId t"
  by (simp add: CleanUpGrids_def Let_def)

lemma slot_view_CleanUpGrids:
  assumes "x < MAX_NUMBER_OF_GRIDS" "y < MAX_NUMBER_OF_GRIDS"
  shows "slot_view x y (CleanUpGrids diff t) =
     (if timer_Passed (timer_Update (uint diff) (i_timer t)) then clean_view (slot_view x y t)
      else slot_view x y t)"
  using assms by (simp add: CleanUpGrids_def Let_def slot_view_rows)

text \<open>
  Claim C7. When the timer has passed, \<^verbatim>\<open>CleanUpGrids\<close> unloads every slot that holds a store
  and whose count is exactly 0: the slot is emptied, its load-attempted flag is cleared and
  both providers have dropped the tile. A slot whose count is positive keeps its store, its
  flag and its provider tiles, whatever the elapsed time; when the timer has not passed no
  store is touched. The counts themselves never change.
\<close>

theorem CleanUpGrids_sweep:
  assumes "x < MAX_NUMBER_OF_GRIDS" and "y < MAX_NUMBER_OF_GRIDS"
  shows "(timer_Passed (timer_Update (uint diff) (i_timer t))
            \<and> m_GridMaps t x y \<noteq> None \<and> refcount x y t = 0 \<longrightarrow>
            m_GridMaps (CleanUpGrids diff t) x y = None
            \<and> \<not> m_GridMapsLoadAttempted (CleanUpGrids diff t) x y
            \<and> \<not> IsTileLoaded (m_vmgr (CleanUpGrids diff t)) (m_mapId t) x y
            \<and> \<not> IsMMapIsLoaded (mmap_mgr (CleanUpGrids diff t)) (m_mapId t) x y)
         \<and> (0 < refcount x y t \<longrightarrow>
            m_GridMaps (CleanUpGrids diff t) x y = m_GridMaps t x y
            \<and> m_GridMapsLoadAttempted (CleanUpGrids diff t) x y = m_GridMapsLoadAttempted t x y
            \<and> IsTileLoaded (m_vmgr (CleanUpGrids diff t)) (m_mapId t) x y
                = IsTileLoaded (m_vmgr t) (m_mapId t) x y
            \<and> IsMMapIsLoaded (mmap_mgr (CleanUpGrids diff t)) (m_mapId t) x y
                = IsMMapIsLoaded (mmap_mgr t) (m_mapId t) x y)
         \<and> (\<not> timer_Passed (timer_Update (uint diff) (i_timer t)) \<longrightarrow>
            m_GridMaps (CleanUpGrids diff t) x y = m_GridMaps t x y)
         \<and> refcount x y (CleanUpGrids diff t) = refcount x y t"
proof -
  note v = slot_view_CleanUpGrids [OF assms, of diff t]
  have z: "refcount x y t = 0 \<longleftrightarrow> m_GridRef t x y = 0"
    by (simp add: refcount_def signed_eq_0_iff)
  have p: "0 < refcount x y t \<Longrightarrow> m_GridRef t x y \<noteq> 0"
    by (auto simp add: refcount_def)
  show ?thesis
    using v z p
    by (auto simp add: slot_view_def clean_view_def refcount_def split: if_splits)
qed

theorem CleanUpGrids_sweep_witness:
  "(3::nat) < MAX_NUMBER_OF_GRIDS \<and> (5::nat) < MAX_NUMBER_OF_GRIDS
   \<and> timer_Passed (timer_Update (uint (60000 :: 32 word)) (i_timer loaded_terrain))
   \<and> m_GridMaps loaded_terrain 3 5 \<noteq> None \<and> refcount 3 5 loaded_terrain = 0
   \<and> m_GridMaps (CleanUpGrids 60000 loaded_terrain) 3 5 = None
   \<and> \<not> m_GridMapsLoadAttempted (CleanUpGrids 60000 loaded_terrain) 3 5"
proof -
  have h: "(3::nat) < MAX_NUMBER_OF_GRIDS" "(5::nat) < MAX_NUMBER_OF_GRIDS"
    by (simp_all add: MAX_NUMBER_OF_GRIDS_def)
  have a: "timer_Passed (timer_Update (uint (60000 :: 32 word)) (i_timer loaded_terrain))"
    by (simp add: loaded_terrain_def example_terrain_def TerrainInfo_new_def timer_Passed_def
        timer_Update_def Let_def)
  have b: "m_GridMaps loaded_terrain 3 5 \<noteq> None" "refcount 3 5 loaded_terrain = 0"
    by (simp_all add: loaded_terrain_def example_terrain_def TerrainInfo_new_def refcount_def)
  show ?thesis
    using CleanUpGrids_sweep [OF h, of 60000 loaded_terrain] h a b by simp
qed

subsection \<open>The fully-loaded flag\<close>

lemma loadData_fullyLoaded: "m_fullyLoaded (snd (loadData fp fl g)) = m_fullyLoaded g"
proof (cases fl)
  case None
  then show ?thesis by (simp add: loadData_def unloadData_def)
next
  case (Some f)
  have u: "m_fullyLoaded (unloadData g) = m_fullyLoaded g" by (simp add: unloadData_def)
  have a: "\<And>g. m_fullyLoaded (snd (stage_area f g)) = m_fullyLoaded g"
    by (simp add: stage_area_def loadAreaData_def Let_def)
  have h: "\<And>g. m_fullyLoaded (snd (stage_holes f g)) = m_fullyLoaded g"
    by (simp add: stage_holes_def loadHolesData_def Let_def split: prod.splits)
  have v: "\<And>g. m_fullyLoaded (snd (stage_height fp f g)) = m_fullyLoaded g"
    by (simp add: stage_height_def loadHeightData_def Let_def)
  have l: "\<And>g. m_fullyLoaded (snd (stage_liquid f g)) = m_fullyLoaded g"
    by (simp add: stage_liquid_def loadGridMapLiquidData_def Let_def)
  show ?thesis
  proof (cases "root_ok f")
    case True
    obtain okA gA where sa: "stage_area f (unloadData g) = (okA, gA)" by force
    obtain okH gH where sh: "stage_holes f gA = (okH, gH)" by force
    obtain okV gV where sv: "stage_height fp f gH = (okV, gV)" by force
    obtain okL gL where sl: "stage_liquid f gV = (okL, gL)" by force
    have "m_fullyLoaded gA = m_fullyLoaded g" using a [of "unloadData g"] sa u by simp
    moreover have "m_fullyLoaded gH = m_fullyLoaded gA" using h [of gA] sh by simp
    moreover have "m_fullyLoaded gV = m_fullyLoaded gH" using v [of gH] sv by simp
    moreover have "m_fullyLoaded gL = m_fullyLoaded gV" using l [of gV] sl by simp
    ultimately show ?thesis
      using Some by (simp add: loadData_stages [OF True sa sh sv sl])
  next
    case False
    then show ?thesis using Some by (auto simp add: loadData_def root_ok_def Let_def u)
  qed
qed

lemma new_not_fullyLoaded: "\<not> IsFullyLoaded (snd (loadData fp fl (GridMap_new fp)))"
  by (simp add: IsFullyLoaded_def loadData_fullyLoaded) (simp add: GridMap_new_def)

lemma SetFullyLoaded_is [simp]: "IsFullyLoaded (SetFullyLoaded g)"
  by (simp add: IsFullyLoaded_def SetFullyLoaded_def)

lemma LoadMapAndVMap_early:
  assumes "x < MAX_NUMBER_OF_GRIDS" "y < MAX_NUMBER_OF_GRIDS"
    and "(m_GridMaps t x y \<noteq> None \<and> mapOnly)
         \<or> (IsTileLoaded (m_vmgr t) (m_mapId t) x y \<and> IsMMapIsLoaded (mmap_mgr t) (m_mapId t) x y)"
  shows "LoadMapAndVMap fp env x y mapOnly t = Some (m_GridMaps t x y, t)"
  using assms by (simp add: LoadMapAndVMap_def)

lemma LoadMapAndVMap_mapOnly:
  assumes "x < MAX_NUMBER_OF_GRIDS" "y < MAX_NUMBER_OF_GRIDS"
    and "m_GridMaps t x y = None" and "mapOnly"
    and "\<not> (IsTileLoaded (m_vmgr t) (m_mapId t) x y \<and> IsMMapIsLoaded (mmap_mgr t) (m_mapId t) x y)"
  shows "LoadMapAndVMap fp env x y mapOnly t =
           Some (Some (snd (loadData fp (map_file env (m_mapId t) x y) (GridMap_new fp))),
                 t\<lparr> m_GridMaps := upd2 (m_GridMaps t) x y
                        (Some (snd (loadData fp (map_file env (m_mapId t) x y) (GridMap_new fp)))) \<rparr>)"
  using assms by (auto simp add: LoadMapAndVMap_def Let_def split: prod.splits)

text \<open>The store that the full path leaves in the slot.\<close>

lemma LoadMapAndVMap_full:
  assumes "x < MAX_NUMBER_OF_GRIDS" "y < MAX_NUMBER_OF_GRIDS"
    and "\<not> mapOnly"
    and "\<not> (IsTileLoaded (m_vmgr t) (m_mapId t) x y \<and> IsMMapIsLoaded (mmap_mgr t) (m_mapId t) x y)"
  shows "\<exists>t'. LoadMapAndVMap fp env x y mapOnly t =
           Some (Some (SetFullyLoaded
                   (case m_GridMaps t x y of
                      Some g0 \<Rightarrow> g0
                    | None \<Rightarrow> snd (loadData fp (map_file env (m_mapId t) x y) (GridMap_new fp)))), t')
         \<and> m_GridMaps t' = upd2 (m_GridMaps t) x y
               (Some (SetFullyLoaded
                   (case m_GridMaps t x y of
                      Some g0 \<Rightarrow> g0
                    | None \<Rightarrow> snd (loadData fp (map_file env (m_mapId t) x y) (GridMap_new fp)))))"
proof (cases "m_GridMaps t x y")
  case None
  then show ?thesis
    using assms
    by (simp add: LoadMapAndVMap_def Let_def split_beta)
next
  case (Some g0)
  then show ?thesis
    using assms
    by (simp add: LoadMapAndVMap_def Let_def split_beta)
qed

lemma upd2_eq: "a x y = v \<Longrightarrow> upd2 a x y v = a"
  by (auto simp add: upd2_def)

text \<open>
  Claim C3, as the code has it. For a slot inside the grid \<^verbatim>\<open>LoadMapAndVMap\<close> changes that one
  slot only and hands back what the slot then holds. When \<^verbatim>\<open>mapOnly\<close> is false and the two
  providers do not both report the tile as loaded, the store of the slot, the old one or
  the one just created from the tile file, is marked fully loaded after the tile-file load
  and the two provider loads have been tried, whatever they answered. When \<^verbatim>\<open>mapOnly\<close> is set
  or both providers report the tile as loaded, an existing store is left as it is and a
  store created on the way is not marked; with both providers loaded and an empty slot
  nothing is created. A store that is fully loaded stays fully loaded.
\<close>

theorem LoadMapAndVMap_fullyLoaded:
  assumes "x < MAX_NUMBER_OF_GRIDS" and "y < MAX_NUMBER_OF_GRIDS"
  shows "\<exists>r t'. LoadMapAndVMap fp env x y mapOnly t = Some (r, t')
           \<and> m_GridMaps t' = upd2 (m_GridMaps t) x y r
           \<and> (if mapOnly \<or> (IsTileLoaded (m_vmgr t) (m_mapId t) x y
                              \<and> IsMMapIsLoaded (mmap_mgr t) (m_mapId t) x y)
               then (case m_GridMaps t x y of
                       Some g0 \<Rightarrow> r = Some g0
                     | None \<Rightarrow>
                         if IsTileLoaded (m_vmgr t) (m_mapId t) x y
                            \<and> IsMMapIsLoaded (mmap_mgr t) (m_mapId t) x y
                         then r = None
                         else (\<exists>g. r = Some g \<and> \<not> IsFullyLoaded g))
               else (case m_GridMaps t x y of
                       Some g0 \<Rightarrow> r = Some (SetFullyLoaded g0)
                     | None \<Rightarrow>
                         r = Some (SetFullyLoaded
                                    (snd (loadData fp (map_file env (m_mapId t) x y) (GridMap_new fp))))))
           \<and> (\<forall>g0. m_GridMaps t x y = Some g0 \<and> IsFullyLoaded g0
                 \<longrightarrow> (\<exists>g. r = Some g \<and> IsFullyLoaded g))"
proof (cases "(m_GridMaps t x y \<noteq> None \<and> mapOnly)
         \<or> (IsTileLoaded (m_vmgr t) (m_mapId t) x y \<and> IsMMapIsLoaded (mmap_mgr t) (m_mapId t) x y)")
  case True
  note e = LoadMapAndVMap_early [OF assms True, of fp env]
  show ?thesis
    using True by (cases "m_GridMaps t x y") (auto simp add: e upd2_eq)
next
  case False
  show ?thesis
  proof (cases mapOnly)
    case True
    then have n: "m_GridMaps t x y = None" using False by simp
    have nb: "\<not> (IsTileLoaded (m_vmgr t) (m_mapId t) x y \<and> IsMMapIsLoaded (mmap_mgr t) (m_mapId t) x y)"
      using False by simp
    note e = LoadMapAndVMap_mapOnly [OF assms n True nb, of fp env]
    show ?thesis
      using True n nb e by (auto simp add: new_not_fullyLoaded)
  next
    case nm: False
    have nb: "\<not> (IsTileLoaded (m_vmgr t) (m_mapId t) x y \<and> IsMMapIsLoaded (mmap_mgr t) (m_mapId t) x y)"
      using False by simp
    from LoadMapAndVMap_full [OF assms nm nb, of fp env]
    obtain t' where e: "LoadMapAndVMap fp env x y mapOnly t =
           Some (Some (SetFullyLoaded
                   (case m_GridMaps t x y of
                      Some g0 \<Rightarrow> g0
                    | None \<Rightarrow> snd (loadData fp (map_file env (m_mapId t) x y) (GridMap_new fp)))), t')"
      and m: "m_GridMaps t' = upd2 (m_GridMaps t) x y
               (Some (SetFullyLoaded
                   (case m_GridMaps t x y of
                      Some g0 \<Rightarrow> g0
                    | None \<Rightarrow> snd (loadData fp (map_file env (m_mapId t) x y) (GridMap_new fp)))))"
      by blast
    show ?thesis
      using nm nb e m by (cases "m_GridMaps t x y") auto
  qed
qed

lemma failing_env_loads:
  "fst (loadData binary32 (map_file failing_env 0 3 5) (GridMap_new binary32)) = False"
  "fst (vmap_loadMap failing_env no_tiles 0 3 5) = VMAP_LOAD_RESULT_ERROR"
  "fst (mmap_loadMap failing_env no_tiles 0 3 5) = False"
  by (simp_all add: failing_env_def loadData_def blank_file_def magic_values Let_def
      vmap_loadMap_def mmap_loadMap_def)

lemma example_terrain_fields:
  "m_GridMaps example_terrain x y = None"
  "m_mapId example_terrain = 0"
  "m_vmgr example_terrain = no_tiles"
  "mmap_mgr example_terrain = no_tiles"
  "\<not> IsTileLoaded no_tiles i x y"
  "\<not> IsMMapIsLoaded no_tiles i x y"
  by (simp_all add: example_terrain_def TerrainInfo_new_def no_tiles_def IsTileLoaded_def
      IsMMapIsLoaded_def)

theorem LoadMapAndVMap_fullyLoaded_witness:
  "(3::nat) < MAX_NUMBER_OF_GRIDS \<and> (5::nat) < MAX_NUMBER_OF_GRIDS
   \<and> map_option fst (LoadMapAndVMap binary32 failing_env 3 5 False example_terrain)
       = Some (Some (SetFullyLoaded (snd (loadData binary32 (map_file failing_env 0 3 5) (GridMap_new binary32)))))"
proof -
  have h: "(3::nat) < MAX_NUMBER_OF_GRIDS" "(5::nat) < MAX_NUMBER_OF_GRIDS"
    by (simp_all add: MAX_NUMBER_OF_GRIDS_def)
  show ?thesis
    using LoadMapAndVMap_fullyLoaded [OF h, of binary32 failing_env False example_terrain] h
    by (auto simp add: example_terrain_fields)
qed

text \<open>
  The flag is set although all three loads fail: the tile file has a wrong root magic, the
  collision-mesh load answers with an error and the navmesh load with \<^verbatim>\<open>false\<close>.
\<close>

theorem fullyLoaded_after_failed_loads:
  "fst (loadData binary32 (map_file failing_env 0 3 5) (GridMap_new binary32)) = False
   \<and> fst (vmap_loadMap failing_env (m_vmgr example_terrain) (m_mapId example_terrain) 3 5)
       = VMAP_LOAD_RESULT_ERROR
   \<and> fst (mmap_loadMap failing_env (mmap_mgr example_terrain) (m_mapId example_terrain) 3 5) = False
   \<and> returned_fully_loaded (LoadMapAndVMap binary32 failing_env 3 5 False example_terrain) = True"
  by (simp add: failing_env_loads example_terrain_fields returned_fully_loaded_def
      LoadMapAndVMap_def Let_def MAX_NUMBER_OF_GRIDS_def split_beta)

subsection \<open>Heights\<close>

lemma and_127: "(i :: int) AND 127 = i mod 128"
proof -
  have "take_bit 7 i = i AND mask 7" by (rule take_bit_eq_mask)
  then show ?thesis by (simp add: take_bit_eq_mod mask_eq_exp_minus_1)
qed





lemma elem_at_Some: "0 \<le> i \<Longrightarrow> i < int (length xs) \<Longrightarrow> elem_at xs i = Some (xs ! nat i)"
  by (simp add: elem_at_def)




lemma MAP_RESOLUTION_mask: "MAP_RESOLUTION - 1 = 127"
  by (simp add: MAP_RESOLUTION_def)

lemma cell_range': "0 \<le> (i :: int) AND 127" "(i :: int) AND 127 < 128"
  by (simp_all add: and_127)

text \<open>The five samples around a cell are inside the two arrays.\<close>

lemma samples_in_range:
  fixes i j :: int
  assumes "0 \<le> i" "i < 128" "0 \<le> j" "j < 128"
    and "length v9 = 129 * 129" "length v8 = 128 * 128"
  shows "elem_at v9 (i * 129 + j) = Some (v9 ! nat (i * 129 + j))"
    and "elem_at v9 ((i + 1) * 129 + j) = Some (v9 ! nat ((i + 1) * 129 + j))"
    and "elem_at v9 (i * 129 + j + 1) = Some (v9 ! nat (i * 129 + j + 1))"
    and "elem_at v9 ((i + 1) * 129 + j + 1) = Some (v9 ! nat ((i + 1) * 129 + j + 1))"
    and "elem_at v8 (i * 128 + j) = Some (v8 ! nat (i * 128 + j))"
  using assms by (simp_all add: elem_at_def)

lemma getHeightFromFloat_cell:
  assumes v: "m_V9 g = Some (FloatArr v9)" "m_V8 g = Some (FloatArr v8)"
    and len: "length v9 = 129 * 129" "length v8 = 128 * 128"
    and cx: "f_to_int fp (scaled fp MAP_RESOLUTION x) = Some xi"
    and cy: "f_to_int fp (scaled fp MAP_RESOLUTION y) = Some yi"
    and hole: "isHole g (xi AND 127) (yi AND 127) = Some False"
  shows "getHeightFromFloat fp g x y =
     Some (plane_at fp
       (plane_coeffs fp (select_triangle fp (cell_fraction fp x xi) (cell_fraction fp y yi))
          (v9 ! nat ((xi AND 127) * 129 + (yi AND 127)))
          (v9 ! nat (((xi AND 127) + 1) * 129 + (yi AND 127)))
          (v9 ! nat ((xi AND 127) * 129 + (yi AND 127) + 1))
          (v9 ! nat (((xi AND 127) + 1) * 129 + (yi AND 127) + 1))
          (v8 ! nat ((xi AND 127) * 128 + (yi AND 127))))
       (cell_fraction fp x xi) (cell_fraction fp y yi))"
proof -
  define i where "i = xi AND 127"
  define j where "j = yi AND 127"
  have ij: "xi AND 127 = i" "yi AND 127 = j" by (simp_all add: i_def j_def)
  have b: "0 \<le> i" "i < 128" "0 \<le> j" "j < 128" by (simp_all add: i_def j_def cell_range')
  show ?thesis
    unfolding getHeightFromFloat_def MAP_RESOLUTION_mask
    using b hole
    by (cases "select_triangle fp (cell_fraction fp x xi) (cell_fraction fp y yi)")
      (simp_all add: v cx cy ij len elem_at_Some as_float_def Let_def select_triangle_def plane_at_def
        twice_def cell_fraction_def split: if_splits)
qed

lemma float_tile_fields:
  "m_V9 float_tile = Some (FloatArr (replicate (129 * 129) (Finite 3)))"
  "m_V8 float_tile = Some (FloatArr (replicate (128 * 128) (Finite 4)))"
  "m_gridGetHeight float_tile = getHeightFromFloat_ptr"
  "m_holes float_tile = (\<lambda>_ _. 0)"
  by (simp_all add: float_tile_def GridMap_new_def)

lemma isHole_eval:
  "isHole g row col =
     (if 0 \<le> c_div row 8 \<and> c_div row 8 < 16 \<and> 0 \<le> c_div col 8 \<and> c_div col 8 < 16
      then case elem_at holetab_h (c_div (col - c_div col 8 * 8) 2) of
             None \<Rightarrow> None
           | Some h \<Rightarrow> (case elem_at holetab_v (c_div (c_mod row 8) 2) of
                None \<Rightarrow> None
              | Some v \<Rightarrow> Some (m_holes g (nat (c_div row 8)) (nat (c_div col 8)) AND h AND v \<noteq> 0))
      else None)"
  by (simp add: isHole_def Let_def split: option.splits)

lemmas cell_eval = scaled_def grid_coord_def cell_fraction_def MAP_RESOLUTION_def round32_eval

lemmas hole_eval = isHole_eval c_div_def c_mod_def elem_at_def holetab_h_def holetab_v_def

text \<open>
  The cells of the example points. The scaled coordinate of 1 is \<open>4095 + 3113 / 4096\<close> and
  that of 3 is \<open>4095 + 1147 / 4096\<close>: both points are in cell 127, and the fractions add
  up to more than 1.
\<close>

lemma example_cells:
  "f_to_int binary32 (scaled binary32 MAP_RESOLUTION (Finite 0)) = Some 4096"
  "f_to_int binary32 (scaled binary32 MAP_RESOLUTION (Finite 1)) = Some 4095"
  "f_to_int binary32 (scaled binary32 MAP_RESOLUTION (Finite 3)) = Some 4095"
  "f_to_int binary32 (scaled binary32 MAP_RESOLUTION (Finite 525)) = Some 3970"
  "cell_fraction binary32 (Finite 1) 4095 = Finite (3113 / 4096)"
  "cell_fraction binary32 (Finite 3) 4095 = Finite (1147 / 4096)"
  "cell_fraction binary32 (Finite 0) 4096 = Finite 0"
  "cell_fraction binary32 (Finite 525) 3970 = Finite 0"
  by (simp_all add: cell_eval)

lemmas example_cells_f32 = example_cells [unfolded binary32_fields]

lemma example_masks:
  "(4096 :: int) AND 127 = 0" "(4095 :: int) AND 127 = 127" "(3970 :: int) AND 127 = 2"
  by (simp_all add: and_127)



lemma getHeightFromFloat_hole:
  assumes "f_to_int fp (scaled fp MAP_RESOLUTION x) = Some xi"
    and "f_to_int fp (scaled fp MAP_RESOLUTION y) = Some yi"
    and "isHole g (xi AND 127) (yi AND 127) = Some True"
  shows "getHeightFromFloat fp g x y = Some (INVALID_HEIGHT_VALUE fp)"
  unfolding getHeightFromFloat_def MAP_RESOLUTION_mask
  using assms by (simp add: Let_def)

text \<open>
  The hole test is made on the cell that the rounded coordinate gives. The point 525 is in
  row 2 of the tile, outside the holes of \<open>corner_hole_tile\<close>, and gets a height; the
  point 0 is in row 0 and gets the sentinel.
\<close>

lemma corner_hole_tile_heights:
  "getHeight binary32 corner_hole_tile (Finite 525) (Finite 0) = Some (Finite 3)"
  "getHeight binary32 corner_hole_tile (Finite 0) (Finite 0) = Some (Finite (- 200000))"
proof -
  have f: "m_V9 corner_hole_tile = Some (FloatArr (replicate (129 * 129) (Finite 3)))"
    "m_V8 corner_hole_tile = Some (FloatArr (replicate (128 * 128) (Finite 4)))"
    "m_gridGetHeight corner_hole_tile = getHeightFromFloat_ptr"
    "m_holes corner_hole_tile = (\<lambda>r c. if r = 0 \<and> c = 0 then 0x0001 else 0)"
    by (simp_all add: corner_hole_tile_def float_tile_fields)
  have l: "length (replicate (129 * 129) (Finite 3)) = 129 * 129"
    "length (replicate (128 * 128) (Finite 4)) = 128 * 128"
    by simp_all
  have h1: "isHole corner_hole_tile (3970 AND 127) (4096 AND 127) = Some False"
    by (simp add: example_masks f hole_eval)
  have h2: "isHole corner_hole_tile (4096 AND 127) (4096 AND 127) = Some True"
    by (simp add: example_masks f hole_eval)
  have s: "select_triangle binary32 (Finite 0) (Finite 0) = Triangle2"
    by (simp add: select_triangle_def round32_eval)
  have p: "plane_at binary32
             (plane_coeffs binary32 Triangle2 (Finite 3) (Finite 3) (Finite 3) (Finite 3) (Finite 4))
             (Finite 0) (Finite 0) = Finite 3"
    by (simp add: plane_at_def twice_def round32_eval)
  show "getHeight binary32 corner_hole_tile (Finite 525) (Finite 0) = Some (Finite 3)"
    using getHeightFromFloat_cell [OF f(1,2) l example_cells(4,1) h1] p
    by (simp add: getHeight_def f example_cells example_masks s)
  show "getHeight binary32 corner_hole_tile (Finite 0) (Finite 0) = Some (Finite (- 200000))"
    using getHeightFromFloat_hole [OF example_cells(1,1) h2]
    by (simp add: getHeight_def f binary32_INVALID_HEIGHT_VALUE)
qed

text \<open>
  Claim C1, as the code has it. Under the float strategy a point whose cell is a hole per
  the hole mask gets the invalid-height sentinel; the cell is the one the code computes
  from the coordinates. The flat strategy does not look at the hole mask: it returns the
  tile-wide height at every point.
\<close>

theorem hole_gives_invalid_height:
  "(m_gridGetHeight g = getHeightFromFloat_ptr
      \<and> f_to_int fp (scaled fp MAP_RESOLUTION x) = Some xi
      \<and> f_to_int fp (scaled fp MAP_RESOLUTION y) = Some yi
      \<and> isHole g (xi AND 127) (yi AND 127) = Some True
    \<longrightarrow> getHeight fp g x y = Some (INVALID_HEIGHT_VALUE fp))
   \<and> (m_gridGetHeight g = getHeightFromFlat_ptr \<longrightarrow> getHeight fp g x y = Some (m_gridHeight g))"
  by (simp add: getHeight_def getHeightFromFlat_def getHeightFromFloat_hole)

lemma holed_float_tile_fields:
  "m_gridGetHeight holed_float_tile = getHeightFromFloat_ptr"
  "isHole holed_float_tile 0 0 = Some True"
  by (simp_all add: holed_float_tile_def float_tile_fields hole_eval)

theorem hole_gives_invalid_height_witness:
  "m_gridGetHeight holed_float_tile = getHeightFromFloat_ptr
   \<and> f_to_int binary32 (scaled binary32 MAP_RESOLUTION (Finite 0)) = Some 4096
   \<and> isHole holed_float_tile (4096 AND 127) (4096 AND 127) = Some True
   \<and> getHeight binary32 holed_float_tile (Finite 0) (Finite 0) = Some (Finite (- 200000))
   \<and> m_gridGetHeight (GridMap_new binary32) = getHeightFromFlat_ptr
   \<and> getHeight binary32 (GridMap_new binary32) (Finite 0) (Finite 0)
       = Some (m_gridHeight (GridMap_new binary32))"
proof -
  have h: "isHole holed_float_tile (4096 AND 127) (4096 AND 127) = Some True"
    by (simp add: example_masks holed_float_tile_fields)
  have f: "m_gridGetHeight (GridMap_new binary32) = getHeightFromFlat_ptr"
    by (simp add: GridMap_new_def)
  show ?thesis
    using hole_gives_invalid_height
        [of holed_float_tile binary32 "Finite 0" 4096 "Finite 0" 4096]
      hole_gives_invalid_height
        [of "GridMap_new binary32" binary32 "Finite 0" 4096 "Finite 0" 4096]
      example_cells(1) h f holed_float_tile_fields(1)
    by (simp add: binary32_INVALID_HEIGHT_VALUE)
qed

lemma holes_flat_tile_eq:
  "loadData binary32 (Some holes_flat_file) (GridMap_new binary32) =
     (True, (GridMap_new binary32)\<lparr> m_holes := (\<lambda>_ _. 0xFFFF), m_gridHeight := Finite 5 \<rparr>)"
  by (simp add: loadData_def loadHolesData_def loadHeightData_def holes_flat_file_def blank_file_def
      magic_values Let_def unloadData_new MAP_HEIGHT_NO_HEIGHT_def)
    (simp add: GridMap_new_def)

text \<open>
  A loaded tile whose every cell is a hole and whose height strategy is flat answers with
  its tile-wide height 5, not with the sentinel.
\<close>

theorem flat_tile_ignores_holes:
  "fst (loadData binary32 (Some holes_flat_file) (GridMap_new binary32)) = True
   \<and> f_to_int binary32 (scaled binary32 MAP_RESOLUTION (Finite 0)) = Some 4096
   \<and> isHole holes_flat_tile (4096 AND 127) (4096 AND 127) = Some True
   \<and> getHeight binary32 holes_flat_tile (Finite 0) (Finite 0) = Some (Finite 5)
   \<and> Finite 5 \<noteq> INVALID_HEIGHT_VALUE binary32"
proof -
  have t: "holes_flat_tile = (GridMap_new binary32)\<lparr> m_holes := (\<lambda>_ _. 0xFFFF), m_gridHeight := Finite 5 \<rparr>"
    by (simp add: holes_flat_tile_def holes_flat_tile_eq)
  have l: "fst (loadData binary32 (Some holes_flat_file) (GridMap_new binary32)) = True"
    by (simp add: holes_flat_tile_eq)
  have h: "isHole holes_flat_tile (4096 AND 127) (4096 AND 127) = Some True"
    unfolding t by (simp add: example_masks hole_eval)
  have g: "getHeight binary32 holes_flat_tile (Finite 0) (Finite 0) = Some (Finite 5)"
    unfolding t by (simp add: getHeight_def getHeightFromFlat_def GridMap_new_def)
  have n: "Finite 5 \<noteq> INVALID_HEIGHT_VALUE binary32"
    by (simp add: binary32_INVALID_HEIGHT_VALUE)
  show ?thesis
    using l example_cells(1) h g n by blast
qed

subsection \<open>The quantised strategies and the hole mask\<close>

text \<open>
  \<^verbatim>\<open>getHeightFromUint16\<close> (and \<^verbatim>\<open>getHeightFromUint8\<close>, which is the same code on bytes) never
  calls \<^verbatim>\<open>isHole\<close>: in a cell that is a hole it interpolates all the same.
\<close>

lemma uint16_tile_ignores_holes:
  "isHole holed_uint16_tile (4096 AND 127) (4096 AND 127) = Some True
   \<and> getHeight binary32 holed_uint16_tile (Finite 0) (Finite 0) = Some (Finite 7)"
proof -
  have h: "isHole holed_uint16_tile (4096 AND 127) (4096 AND 127) = Some True"
    by (simp add: example_masks holed_uint16_tile_def GridMap_new_def hole_eval)
  have f: "fsub binary32 (scaled binary32 MAP_RESOLUTION (Finite 0)) (fint binary32 4096) = Finite 0"
    using example_cells(7) by (simp add: cell_fraction_def)
  have z: "fless binary32 (fadd binary32 (Finite 0) (Finite 0)) (fint binary32 1)"
    "\<not> fless binary32 (Finite 0) (Finite 0)"
    by (simp_all add: round32_eval)
  have r: "fadd binary32
             (fmul binary32
                (fadd binary32
                   (fadd binary32 (fmul binary32 (fint binary32 0) (Finite 0))
                      (fmul binary32 (fint binary32 0) (Finite 0)))
                   (fint binary32 0))
                (Finite 1))
             (Finite 7) = Finite 7"
    by (simp add: round32_eval)
  have g: "getHeightFromUint16 binary32 holed_uint16_tile (Finite 0) (Finite 0) = Some (Finite 7)"
    unfolding getHeightFromUint16_def MAP_RESOLUTION_mask
    by (simp add: example_cells(1) example_masks f z r holed_uint16_tile_def GridMap_new_def
        as_uint16_def elem_at_def Let_def)
  show ?thesis
    using h g by (simp add: getHeight_def holed_uint16_tile_def)
qed

subsection \<open>Liquid status\<close>

lemma case_bind:
  "(case Option.bind m f of None \<Rightarrow> None | Some c \<Rightarrow> h c) =
     Option.bind m (\<lambda>v. case f v of None \<Rightarrow> None | Some c \<Rightarrow> h c)"
  by (cases m) simp_all

lemma case_if:
  "(case (if b then p else q) of None \<Rightarrow> None | Some c \<Rightarrow> h c) =
     (if b then (case p of None \<Rightarrow> None | Some c \<Rightarrow> h c) else (case q of None \<Rightarrow> None | Some c \<Rightarrow> h c))"
  by simp

lemma case_case_prod:
  "(case (case v of (a, b) \<Rightarrow> F a b) of None \<Rightarrow> None | Some c \<Rightarrow> h c) =
     (case v of (a, b) \<Rightarrow> (case F a b of None \<Rightarrow> None | Some c \<Rightarrow> h c))"
  by (cases v) simp

lemma classify_leaf:
  "Some (classify_delta fp delta ch, d) =
     (if fless fp ch delta then Some (LIQUID_MAP_UNDER_WATER, d)
      else if fless fp (fint fp 0) delta then Some (LIQUID_MAP_IN_WATER, d)
      else if fless fp (fint fp (- 1)) delta then Some (LIQUID_MAP_WATER_WALK, d)
      else Some (LIQUID_MAP_ABOVE_WATER, d))"
  by (simp add: classify_delta_def)

lemma getLiquidStatus_checks:
  "getLiquidStatus fp dbc g x y z req data ch =
     (case liquid_checks fp dbc g x y z req of
        None \<Rightarrow> None
      | Some Rejected \<Rightarrow> Some (LIQUID_MAP_NO_WATER, data)
      | Some (Passed e t l gl) \<Rightarrow>
          Some (classify_delta fp (fsub fp l z) ch, map_option (store_data e t l gl) data))"
  unfolding getLiquidStatus_def liquid_checks_def MAP_RESOLUTION_mask
  by (simp add: Let_def case_bind case_if case_case_prod classify_leaf store_data_def [abs_def]
      split del: if_split cong del: if_weak_cong)

lemma classify_delta_water [simp]: "classify_delta fp delta ch \<noteq> LIQUID_MAP_NO_WATER"
  by (simp add: classify_delta_def)

lemma liquid_checks_Passed:
  assumes "liquid_checks fp dbc g x y z req = Some (Passed e t l gl)"
  shows "getHeight fp g x y = Some gl \<and> \<not> fless fp l gl \<and> \<not> fless fp z (fsub fp gl (fint fp 2))
         \<and> t \<noteq> 0 \<and> (req = 0 \<or> req AND t \<noteq> 0)"
  using assms
  by (auto simp add: liquid_checks_def Let_def bind_eq_Some_conv split: if_splits)

lemma liquid_checks_level:
  assumes "liquid_checks fp dbc g x y z req = Some (Passed e t l gl)"
  shows "case m_liquid_map g of None \<Rightarrow> l = m_liquidLevel g | Some liquid_map \<Rightarrow> l \<in> set liquid_map"
  using assms
  by (auto simp add: liquid_checks_def Let_def bind_eq_Some_conv elem_at_def
      split: if_splits option.splits)

lemma water_tile_checks:
  "liquid_checks binary32 no_dbc water_tile (Finite 0) (Finite 0) (Finite z) 0 =
     Some (if z < - 2 then Rejected else Passed 0 1 (Finite 10) (Finite 0))"
  by (simp add: liquid_checks_def water_tile_def no_dbc_def GridMap_new_def example_cells_f32
      example_masks resolveLiquid_def getHeight_def getHeightFromFlat_def round32_eval)

text \<open>
  The difference \<open>delta\<close> is the rounded one: with a liquid level of \<^verbatim>\<open>0.01f\<close> and \<open>z\<close> at
  \<^verbatim>\<open>1.01f\<close> it is exactly -1, so the point is above the water, although \<open>0.01 - 1.01\<close> on
  the two floats taken as real numbers is just above -1.
\<close>

lemma delta_is_rounded:
  "round32 0.01 = Finite (5368709 / 536870912)"
  "round32 1.01 = Finite (4236247 / 4194304)"
  "fsub binary32 (Finite (5368709 / 536870912)) (Finite (4236247 / 4194304)) = Finite (- 1)"
  "getLiquidStatus binary32 no_dbc shallow_tile (Finite 0) (Finite 0) (Finite (4236247 / 4194304)) 0
     None (Finite 2) = Some (LIQUID_MAP_ABOVE_WATER, None)"
proof -
  show l: "round32 0.01 = Finite (5368709 / 536870912)"
    by (simp add: round32_eval)
  show "round32 1.01 = Finite (4236247 / 4194304)"
    by (simp add: round32_eval)
  show d: "fsub binary32 (Finite (5368709 / 536870912)) (Finite (4236247 / 4194304)) = Finite (- 1)"
    by (simp add: round32_eval)
  have c: "liquid_checks binary32 no_dbc shallow_tile (Finite 0) (Finite 0)
             (Finite (4236247 / 4194304)) 0
             = Some (Passed 0 1 (Finite (5368709 / 536870912)) (Finite 0))"
    by (simp add: liquid_checks_def shallow_tile_def water_tile_def no_dbc_def GridMap_new_def
        example_cells_f32 example_masks resolveLiquid_def getHeight_def getHeightFromFlat_def
        round32_eval)
  have k: "classify_delta binary32 (Finite (- 1)) (Finite 2) = LIQUID_MAP_ABOVE_WATER"
    by (simp add: classify_delta_def round32_eval)
  show "getLiquidStatus binary32 no_dbc shallow_tile (Finite 0) (Finite 0) (Finite (4236247 / 4194304)) 0
     None (Finite 2) = Some (LIQUID_MAP_ABOVE_WATER, None)"
    by (simp add: getLiquidStatus_checks c d k)
qed

text \<open>
  So is the bound \<^verbatim>\<open>ground_level - 2\<close>: for a ground level of \<open>1 / 2 ^ 30\<close> it is exactly
  -2, and a point at \<open>z = - 2\<close> passes the check.
\<close>

lemma ground_bound_is_rounded:
  "fsub binary32 (Finite (1 / 2 ^ 30)) (fint binary32 2) = Finite (- 2)"
  "liquid_checks binary32 no_dbc low_ground_tile (Finite 0) (Finite 0) (Finite (- 2)) 0
     = Some (Passed 0 1 (Finite 10) (Finite (1 / 2 ^ 30)))"
  "getLiquidStatus binary32 no_dbc low_ground_tile (Finite 0) (Finite 0) (Finite (- 2)) 0 None
     (Finite 2) = Some (LIQUID_MAP_UNDER_WATER, None)"
proof -
  show "fsub binary32 (Finite (1 / 2 ^ 30)) (fint binary32 2) = Finite (- 2)"
    by (simp add: round32_eval)
  show c: "liquid_checks binary32 no_dbc low_ground_tile (Finite 0) (Finite 0) (Finite (- 2)) 0
     = Some (Passed 0 1 (Finite 10) (Finite (1 / 2 ^ 30)))"
    by (simp add: liquid_checks_def low_ground_tile_def water_tile_def no_dbc_def GridMap_new_def
        example_cells_f32 example_masks resolveLiquid_def getHeight_def getHeightFromFlat_def
        round32_eval)
  have k: "classify_delta binary32 (fsub binary32 (Finite 10) (Finite (- 2))) (Finite 2)
             = LIQUID_MAP_UNDER_WATER"
    by (simp add: classify_delta_def round32_eval)
  show "getLiquidStatus binary32 no_dbc low_ground_tile (Finite 0) (Finite 0) (Finite (- 2)) 0 None
     (Finite 2) = Some (LIQUID_MAP_UNDER_WATER, None)"
    by (simp add: getLiquidStatus_checks c k)
qed

text \<open>
  Claim C5. A query that passes the checks of \<^verbatim>\<open>getLiquidStatus\<close> (liquid present, resolved
  type not 0 and inside the required-type mask, cell inside the liquid window, liquid level
  not below the ground level and \<open>z\<close> not more than 2 below the ground) is classified by
  \<open>delta = liquidLevel - z\<close>: above the collision height it is under water, else above 0
  in water, else above -1 water walk, else above water; a query that fails a check gets
  \<^verbatim>\<open>NoWater\<close>. The difference and the comparisons are the float operations of the code. With
  liquid level 10 and collision height 2 the answers at \<open>z\<close> = 7.5, 9.5, 10.5 and 12, in
  single precision, are under water, in water, water walk and above water.
\<close>

theorem getLiquidStatus_classification:
  "(liquid_checks fp dbc g x y z req = Some (Passed e t l gl) \<longrightarrow>
      getLiquidStatus fp dbc g x y z req data ch =
        Some (classify_delta fp (fsub fp l z) ch, map_option (store_data e t l gl) data)
      \<and> getHeight fp g x y = Some gl
      \<and> \<not> fless fp l gl \<and> \<not> fless fp z (fsub fp gl (fint fp 2))
      \<and> t \<noteq> 0 \<and> (req = 0 \<or> req AND t \<noteq> 0))
   \<and> (liquid_checks fp dbc g x y z req = Some Rejected \<longrightarrow>
      getLiquidStatus fp dbc g x y z req data ch = Some (LIQUID_MAP_NO_WATER, data))
   \<and> (classify_delta fp delta ch = LIQUID_MAP_UNDER_WATER \<longleftrightarrow> fless fp ch delta)
   \<and> (classify_delta fp delta ch = LIQUID_MAP_IN_WATER \<longleftrightarrow>
        \<not> fless fp ch delta \<and> fless fp (fint fp 0) delta)
   \<and> (classify_delta fp delta ch = LIQUID_MAP_WATER_WALK \<longleftrightarrow>
        \<not> fless fp ch delta \<and> \<not> fless fp (fint fp 0) delta \<and> fless fp (fint fp (- 1)) delta)
   \<and> (classify_delta fp delta ch = LIQUID_MAP_ABOVE_WATER \<longleftrightarrow>
        \<not> fless fp ch delta \<and> \<not> fless fp (fint fp 0) delta \<and> \<not> fless fp (fint fp (- 1)) delta)
   \<and> liquid_checks binary32 no_dbc water_tile (Finite 0) (Finite 0) (Finite 7.5) 0
       = Some (Passed 0 1 (Finite 10) (Finite 0))
   \<and> getLiquidStatus binary32 no_dbc water_tile (Finite 0) (Finite 0) (Finite 7.5) 0 None (Finite 2)
       = Some (LIQUID_MAP_UNDER_WATER, None)
   \<and> getLiquidStatus binary32 no_dbc water_tile (Finite 0) (Finite 0) (Finite 9.5) 0 None (Finite 2)
       = Some (LIQUID_MAP_IN_WATER, None)
   \<and> getLiquidStatus binary32 no_dbc water_tile (Finite 0) (Finite 0) (Finite 10.5) 0 None (Finite 2)
       = Some (LIQUID_MAP_WATER_WALK, None)
   \<and> getLiquidStatus binary32 no_dbc water_tile (Finite 0) (Finite 0) (Finite 12) 0 None (Finite 2)
       = Some (LIQUID_MAP_ABOVE_WATER, None)"
proof -
  have p: "liquid_checks fp dbc g x y z req = Some (Passed e t l gl) \<longrightarrow>
      getLiquidStatus fp dbc g x y z req data ch =
        Some (classify_delta fp (fsub fp l z) ch, map_option (store_data e t l gl) data)
      \<and> getHeight fp g x y = Some gl
      \<and> \<not> fless fp l gl \<and> \<not> fless fp z (fsub fp gl (fint fp 2))
      \<and> t \<noteq> 0 \<and> (req = 0 \<or> req AND t \<noteq> 0)"
    using liquid_checks_Passed [of fp dbc g x y z req e t l gl]
    by (simp add: getLiquidStatus_checks)
  have r: "liquid_checks fp dbc g x y z req = Some Rejected \<longrightarrow>
      getLiquidStatus fp dbc g x y z req data ch = Some (LIQUID_MAP_NO_WATER, data)"
    by (simp add: getLiquidStatus_checks)
  have c: "(classify_delta fp delta ch = LIQUID_MAP_UNDER_WATER \<longleftrightarrow> fless fp ch delta)"
    "(classify_delta fp delta ch = LIQUID_MAP_IN_WATER \<longleftrightarrow>
        \<not> fless fp ch delta \<and> fless fp (fint fp 0) delta)"
    "(classify_delta fp delta ch = LIQUID_MAP_WATER_WALK \<longleftrightarrow>
        \<not> fless fp ch delta \<and> \<not> fless fp (fint fp 0) delta \<and> fless fp (fint fp (- 1)) delta)"
    "(classify_delta fp delta ch = LIQUID_MAP_ABOVE_WATER \<longleftrightarrow>
        \<not> fless fp ch delta \<and> \<not> fless fp (fint fp 0) delta \<and> \<not> fless fp (fint fp (- 1)) delta)"
    by (simp_all add: classify_delta_def)
  have e: "liquid_checks binary32 no_dbc water_tile (Finite 0) (Finite 0) (Finite 7.5) 0
       = Some (Passed 0 1 (Finite 10) (Finite 0))"
    "getLiquidStatus binary32 no_dbc water_tile (Finite 0) (Finite 0) (Finite 7.5) 0 None (Finite 2)
       = Some (LIQUID_MAP_UNDER_WATER, None)"
    "getLiquidStatus binary32 no_dbc water_tile (Finite 0) (Finite 0) (Finite 9.5) 0 None (Finite 2)
       = Some (LIQUID_MAP_IN_WATER, None)"
    "getLiquidStatus binary32 no_dbc water_tile (Finite 0) (Finite 0) (Finite 10.5) 0 None (Finite 2)
       = Some (LIQUID_MAP_WATER_WALK, None)"
    "getLiquidStatus binary32 no_dbc water_tile (Finite 0) (Finite 0) (Finite 12) 0 None (Finite 2)
       = Some (LIQUID_MAP_ABOVE_WATER, None)"
    by (simp_all add: getLiquidStatus_checks water_tile_checks classify_delta_def round32_eval)
  show ?thesis
    using p r c e by blast
qed

theorem getLiquidStatus_classification_witness:
  "liquid_checks binary32 no_dbc water_tile (Finite 0) (Finite 0) (Finite 9.5) 0
     = Some (Passed 0 1 (Finite 10) (Finite 0))
   \<and> getLiquidStatus binary32 no_dbc water_tile (Finite 0) (Finite 0) (Finite 9.5) 0
       (Some blank_data) (Finite 2) =
       Some (LIQUID_MAP_IN_WATER, Some (store_data 0 1 (Finite 10) (Finite 0) blank_data))
   \<and> liquid_checks binary32 no_dbc water_tile (Finite 0) (Finite 0) (Finite (- 100)) 0 = Some Rejected
   \<and> getLiquidStatus binary32 no_dbc water_tile (Finite 0) (Finite 0) (Finite (- 100)) 0
       (Some blank_data) (Finite 2) =
       Some (LIQUID_MAP_NO_WATER, Some blank_data)"
proof -
  have c: "liquid_checks binary32 no_dbc water_tile (Finite 0) (Finite 0) (Finite 9.5) 0
             = Some (Passed 0 1 (Finite 10) (Finite 0))"
    "liquid_checks binary32 no_dbc water_tile (Finite 0) (Finite 0) (Finite (- 100)) 0 = Some Rejected"
    by (simp_all add: water_tile_checks)
  have d: "classify_delta binary32 (fsub binary32 (Finite 10) (Finite 9.5)) (Finite 2)
             = LIQUID_MAP_IN_WATER"
    by (simp add: classify_delta_def round32_eval)
  show ?thesis
    using getLiquidStatus_classification
        [of binary32 no_dbc water_tile "Finite 0" "Finite 0" "Finite 9.5" 0 0 1 "Finite 10" "Finite 0"
          "Some blank_data" "Finite 2"]
      getLiquidStatus_classification
        [of binary32 no_dbc water_tile "Finite 0" "Finite 0" "Finite (- 100)" 0 0 1 "Finite 10"
          "Finite 0" "Some blank_data" "Finite 2"]
      c d
    by simp
qed

text \<open>
  Claim C10. Called with a detail struct, \<^verbatim>\<open>getLiquidStatus\<close> leaves the struct exactly as it
  was whenever it answers \<^verbatim>\<open>NoWater\<close>, on every such path, and whenever it answers anything
  else it assigns all four of its fields: the entry and the type that the look-up in the
  metadata tables resolved, the liquid level of the cell (an element of the liquid height
  grid, or the tile-wide level without a grid) and, as depth level, the ground level that
  \<^verbatim>\<open>getHeight\<close> gives. Nothing of the struct that was passed in is left. \<^verbatim>\<open>NoWater\<close> is the
  answer exactly when a check rejects the query.
\<close>

theorem getLiquidStatus_frame:
  "getLiquidStatus fp dbc g x y z req (Some d0) ch = Some (r, data') \<longrightarrow>
     (r = LIQUID_MAP_NO_WATER \<longrightarrow>
        data' = Some d0 \<and> liquid_checks fp dbc g x y z req = Some Rejected)
     \<and> (r \<noteq> LIQUID_MAP_NO_WATER \<longrightarrow>
          (\<exists>e t l gl.
             liquid_checks fp dbc g x y z req = Some (Passed e t l gl)
             \<and> getHeight fp g x y = Some gl
             \<and> (case m_liquid_map g of
                   None \<Rightarrow> l = m_liquidLevel g
                 | Some liquid_map \<Rightarrow> l \<in> set liquid_map)
             \<and> data' = Some \<lparr> type_flags = ucast t, entry = e, level = l, depth_level = gl \<rparr>
             \<and> getLiquidStatus fp dbc g x y z req (Some d1) ch = Some (r, data')))"
proof (cases "liquid_checks fp dbc g x y z req")
  case None
  then show ?thesis by (simp add: getLiquidStatus_checks)
next
  case (Some c)
  show ?thesis
  proof (cases c)
    case Rejected
    then show ?thesis using Some by (auto simp add: getLiquidStatus_checks)
  next
    case (Passed e t l gl)
    have s: "\<And>d. store_data e t l gl d = \<lparr> type_flags = ucast t, entry = e, level = l, depth_level = gl \<rparr>"
    proof -
      fix d :: "'a GridMapLiquidData"
      show "store_data e t l gl d = \<lparr> type_flags = ucast t, entry = e, level = l, depth_level = gl \<rparr>"
        by (cases d) (simp add: store_data_def)
    qed
    have h: "getHeight fp g x y = Some gl"
      using liquid_checks_Passed [of fp dbc g x y z req e t l gl] Some Passed by simp
    have m: "case m_liquid_map g of None \<Rightarrow> l = m_liquidLevel g | Some liquid_map \<Rightarrow> l \<in> set liquid_map"
      using liquid_checks_level [of fp dbc g x y z req e t l gl] Some Passed by simp
    show ?thesis
      using Some Passed h m by (auto simp add: getLiquidStatus_checks s)
  qed
qed

theorem getLiquidStatus_frame_witness:
  "getLiquidStatus binary32 no_dbc water_tile (Finite 0) (Finite 0) (Finite (- 100)) 0
       (Some blank_data) (Finite 2) =
       Some (LIQUID_MAP_NO_WATER, Some blank_data)
   \<and> getLiquidStatus binary32 no_dbc water_tile (Finite 0) (Finite 0) (Finite 9.5) 0
       (Some blank_data) (Finite 2) =
       Some (LIQUID_MAP_IN_WATER,
             Some \<lparr> type_flags = 1, entry = 0, level = Finite 10, depth_level = Finite 0 \<rparr>)
   \<and> \<lparr> type_flags = 1, entry = 0, level = Finite 10, depth_level = Finite 0 \<rparr> \<noteq> blank_data"
proof -
  have a: "getLiquidStatus binary32 no_dbc water_tile (Finite 0) (Finite 0) (Finite (- 100)) 0
       (Some blank_data) (Finite 2) =
       Some (LIQUID_MAP_NO_WATER, Some blank_data)"
    by (simp add: getLiquidStatus_checks water_tile_checks)
  have b: "getLiquidStatus binary32 no_dbc water_tile (Finite 0) (Finite 0) (Finite 9.5) 0
       (Some blank_data) (Finite 2) =
       Some (LIQUID_MAP_IN_WATER,
             Some \<lparr> type_flags = 1, entry = 0, level = Finite 10, depth_level = Finite 0 \<rparr>)"
    by (simp add: getLiquidStatus_checks water_tile_checks classify_delta_def store_data_def
        blank_data_def round32_eval)
  have n: "\<lparr> type_flags = 1, entry = 0, level = Finite 10, depth_level = Finite 0 \<rparr> \<noteq> blank_data"
    by (simp add: blank_data_def)
  show ?thesis
    using getLiquidStatus_frame [of binary32 no_dbc water_tile "Finite 0" "Finite 0" "Finite (- 100)" 0
        blank_data "Finite 2" LIQUID_MAP_NO_WATER "Some blank_data" blank_data]
      getLiquidStatus_frame [of binary32 no_dbc water_tile "Finite 0" "Finite 0" "Finite 9.5" 0
        blank_data "Finite 2" LIQUID_MAP_IN_WATER
        "Some \<lparr> type_flags = 1, entry = 0, level = Finite 10, depth_level = Finite 0 \<rparr>" blank_data]
      a b n
    by simp
qed

subsection \<open>Where the queries are defined\<close>




lemma as_float_Some: "as_float p = Some xs \<longleftrightarrow> p = Some (FloatArr xs)"
  by (auto simp add: as_float_def split: option.splits samples.splits)

lemma as_uint8_Some: "as_uint8 p = Some xs \<longleftrightarrow> p = Some (Uint8Arr xs)"
  by (auto simp add: as_uint8_def split: option.splits samples.splits)

lemma as_uint16_Some: "as_uint16 p = Some xs \<longleftrightarrow> p = Some (Uint16Arr xs)"
  by (auto simp add: as_uint16_def split: option.splits samples.splits)













lemma length_fread_array [simp]: "length (fread_array n f) = n"
  by (simp add: fread_array_def)


lemma wf_store_new: "wf_store (GridMap_new fp)"
  by (simp add: wf_store_def GridMap_new_def)









lemma cache_ok_attempted [simp]:
  "cache_ok (t\<lparr> m_GridMapsLoadAttempted := a \<rparr>) = cache_ok t"
  by (simp add: cache_ok_def)






















end
